theory Spec2Isabelle
  imports Main "HOL-Library.Word" "HOL-Library.Signed_Division"
begin

section \<open>Machine types of the JNI boundary\<close>

text \<open>
  The C sources exchange values with the JVM through the fixed-width JNI types:
  \<open>jchar\<close> is an unsigned 16-bit UTF-16 code unit, \<open>jbyte\<close> and the C \<open>char\<close> are
  8 bits, \<open>jint\<close>, \<open>jsize\<close> and the C \<open>int\<close> are 32 bits, \<open>jlong\<close> and (on the LP64
  Linux targets the library is built for) \<open>time_t\<close> are 64 bits. Words carry the bit
  pattern; \<open>sint\<close> reads a signed type, \<open>unat\<close>/\<open>uint\<close> an unsigned one. A Java string
  is its sequence of code units, a C buffer the sequence of its bytes. A Java string or
  array has fewer than \<open>2^31\<close> elements, so the 32-bit length the C code reads from the
  JVM is the length of the list.
\<close>

type_synonym jchar = "16 word"
type_synonym jbyte = "8 word"
type_synonym c_char = "8 word"
type_synonym c_int = "32 word"
type_synonym jint = "32 word"
type_synonym jlong = "64 word"
type_synonym time_t = "64 word"
type_synonym jstring = "jchar list"

section \<open>aocode\_shared: exception classes and the errno classifier\<close>

text \<open>The class names of \<^verbatim>\<open>aocode_shared.h\<close>.\<close>

definition FILE_NOT_FOUND_EXCEPTION :: string where
  "FILE_NOT_FOUND_EXCEPTION = ''java/io/FileNotFoundException''"

definition IO_EXCEPTION :: string where
  "IO_EXCEPTION = ''java/io/IOException''"

definition ILLEGAL_ARGUMENT_EXCEPTION :: string where
  "ILLEGAL_ARGUMENT_EXCEPTION = ''java/lang/IllegalArgumentException''"

definition INTERRUPTED_IO_EXCEPTION :: string where
  "INTERRUPTED_IO_EXCEPTION = ''java/io/InterruptedIOException''"

definition NO_SUCH_METHOD_EXCEPTION :: string where
  "NO_SUCH_METHOD_EXCEPTION = ''java/lang/NoSuchMethodException''"

definition OUT_OF_MEMORY_EXCEPTION :: string where
  "OUT_OF_MEMORY_EXCEPTION = ''java/lang/OutOfMemoryError''"

definition RUNTIME_EXCEPTION :: string where
  "RUNTIME_EXCEPTION = ''java/lang/RuntimeException''"

definition SECURITY_EXCEPTION :: string where
  "SECURITY_EXCEPTION = ''java/lang/SecurityException''"

text \<open>
  The error numbers come from the system header \<^verbatim>\<open>errno.h\<close>, which is not part of the
  repository. The library is Linux-only (it includes \<^verbatim>\<open>linux/random.h\<close>), so the
  constants carry their Linux values (\<^verbatim>\<open>asm-generic/errno-base.h\<close> and
  \<^verbatim>\<open>asm-generic/errno.h\<close>).
\<close>

definition EPERM :: c_int where "EPERM = 1"
definition ENOENT :: c_int where "ENOENT = 2"
definition EINTR :: c_int where "EINTR = 4"
definition EIO :: c_int where "EIO = 5"
definition EBADF :: c_int where "EBADF = 9"
definition ENOMEM :: c_int where "ENOMEM = 12"
definition EACCES :: c_int where "EACCES = 13"
definition EFAULT :: c_int where "EFAULT = 14"
definition EEXIST :: c_int where "EEXIST = 17"
definition EXDEV :: c_int where "EXDEV = 18"
definition ENOTDIR :: c_int where "ENOTDIR = 20"
definition EINVAL :: c_int where "EINVAL = 22"
definition ENOSPC :: c_int where "ENOSPC = 28"
definition EROFS :: c_int where "EROFS = 30"
definition EMLINK :: c_int where "EMLINK = 31"
definition ENAMETOOLONG :: c_int where "ENAMETOOLONG = 36"
definition ENOSYS :: c_int where "ENOSYS = 38"
definition ELOOP :: c_int where "ELOOP = 40"

text \<open>
  \<^verbatim>\<open>getErrorType\<close> of \<^verbatim>\<open>src/main/c/com/aoapps/io/posix/aocode_shared.c\<close>: the chain
  of comparisons in the order of the source; the first match decides.
\<close>

definition getErrorType :: "c_int \<Rightarrow> string" where
  "getErrorType err =
    (if err = EACCES then SECURITY_EXCEPTION
     else if err = EBADF then IO_EXCEPTION
     else if err = EEXIST then IO_EXCEPTION
     else if err = EFAULT then RUNTIME_EXCEPTION
     else if err = EINTR then INTERRUPTED_IO_EXCEPTION
     else if err = EINVAL then ILLEGAL_ARGUMENT_EXCEPTION
     else if err = EIO then IO_EXCEPTION
     else if err = ELOOP then FILE_NOT_FOUND_EXCEPTION
     else if err = EMLINK then IO_EXCEPTION
     else if err = ENAMETOOLONG then ILLEGAL_ARGUMENT_EXCEPTION
     else if err = ENOENT then FILE_NOT_FOUND_EXCEPTION
     else if err = ENOMEM then OUT_OF_MEMORY_EXCEPTION
     else if err = ENOSPC then IO_EXCEPTION
     else if err = ENOSYS then NO_SUCH_METHOD_EXCEPTION
     else if err = ENOTDIR then IO_EXCEPTION
     else if err = EPERM then SECURITY_EXCEPTION
     else if err = EROFS then IO_EXCEPTION
     else if err = EXDEV then IO_EXCEPTION
     else RUNTIME_EXCEPTION)"

text \<open>
  \<^verbatim>\<open>getErrorType\<close> of the older binding generation,
  \<^verbatim>\<open>src/com/aoindustries/io/unix/aocode_shared.c\<close>, translated from its own text.
\<close>

definition getErrorType_unix :: "c_int \<Rightarrow> string" where
  "getErrorType_unix err =
    (if err = EACCES then SECURITY_EXCEPTION
     else if err = EBADF then IO_EXCEPTION
     else if err = EEXIST then IO_EXCEPTION
     else if err = EFAULT then RUNTIME_EXCEPTION
     else if err = EINTR then INTERRUPTED_IO_EXCEPTION
     else if err = EINVAL then ILLEGAL_ARGUMENT_EXCEPTION
     else if err = EIO then IO_EXCEPTION
     else if err = ELOOP then FILE_NOT_FOUND_EXCEPTION
     else if err = EMLINK then IO_EXCEPTION
     else if err = ENAMETOOLONG then ILLEGAL_ARGUMENT_EXCEPTION
     else if err = ENOENT then FILE_NOT_FOUND_EXCEPTION
     else if err = ENOMEM then OUT_OF_MEMORY_EXCEPTION
     else if err = ENOSPC then IO_EXCEPTION
     else if err = ENOSYS then NO_SUCH_METHOD_EXCEPTION
     else if err = ENOTDIR then IO_EXCEPTION
     else if err = EPERM then SECURITY_EXCEPTION
     else if err = EROFS then IO_EXCEPTION
     else if err = EXDEV then IO_EXCEPTION
     else RUNTIME_EXCEPTION)"

section \<open>The environment of a native call\<close>

text \<open>
  A native method runs against a JVM, the C allocator and the kernel. Their answers are
  inputs of the model: a \<open>world\<close> fixes, for one invocation, which JNI calls and
  allocations succeed, what uninitialised memory holds, the value of \<open>errno\<close> left by
  earlier code, and what each system call answers for its arguments. A system call
  that fails answers with its error number (the C function returns \<open>-1\<close> and sets
  \<open>errno\<close>).
\<close>

text \<open>
  \<^verbatim>\<open>struct stat\<close>, \<^verbatim>\<open>struct utimbuf\<close> and \<^verbatim>\<open>struct rand_pool_info\<close> come from system
  headers; the field widths and the sizes are those of x86-64 Linux.
\<close>

record struct_stat =
  st_dev :: "64 word"
  st_ino :: "64 word"
  st_nlink :: "64 word"
  st_mode :: "32 word"
  st_uid :: "32 word"
  st_gid :: "32 word"
  st_rdev :: "64 word"
  st_size :: "64 word"
  st_blksize :: "64 word"
  st_blocks :: "64 word"
  st_atime :: time_t
  st_mtime :: time_t
  st_ctime :: time_t

record rand_pool_info =
  entropy_count :: c_int
  buf_size :: c_int
  buf :: "c_char list"

record world =
  GetStringCritical_ok :: bool
  GetByteArrayElements_ok :: bool
  NewString_ok :: bool
  FindClass_ok :: "string \<Rightarrow> bool"
  GetStaticFieldID_ok :: bool
  GetMethodID_ok :: bool
  NewObject_ok :: bool
  malloc_ok :: "nat \<Rightarrow> bool"
  uninit_char :: "nat \<Rightarrow> c_char"
  uninit_jchar :: "nat \<Rightarrow> jchar"
  stale_errno :: c_int
  sys_lstat :: "c_char list \<Rightarrow> c_int + struct_stat"
  sys_utime :: "c_char list \<Rightarrow> time_t \<Rightarrow> time_t \<Rightarrow> c_int option"
  sys_readlink :: "c_char list \<Rightarrow> c_int + c_char list"
  sys_open :: "c_char list \<Rightarrow> c_int + c_int"
  sys_ioctl :: "c_int \<Rightarrow> rand_pool_info \<Rightarrow> c_int option"

text \<open>
  The system calls a native method issues, in order, with the arguments the kernel sees.
  A path argument is a C string: the kernel reads it up to the first zero byte.
\<close>

datatype syscall =
    Sys_lstat "c_char list"
  | Sys_utime "c_char list" time_t time_t
  | Sys_readlink "c_char list" nat
  | Sys_open "c_char list"
  | Sys_ioctl_RNDADDENTROPY c_int rand_pool_info
  | Sys_close c_int

text \<open>
  How a native method can end without a result: a Java exception of a named class was
  thrown by the C code (\<open>Thrown\<close>); a JNI function failed and left its own exception
  pending, the C code returning \<open>NULL\<close> without throwing (\<open>JVMPending\<close>); or the C
  code would read past the end of a buffer (\<open>OutOfBounds\<close>) or read a local variable
  that was never assigned (\<open>Unassigned\<close>), both undefined behaviour.
\<close>

datatype failure = Thrown string | JVMPending | OutOfBounds | Unassigned

definition c_string :: "c_char list \<Rightarrow> c_char list" where
  "c_string str = takeWhile (\<lambda>c. c \<noteq> 0) str"

text \<open>\<^verbatim>\<open>strlen\<close>: the index of the first zero byte; none inside the buffer is a read past its end.\<close>

fun strlen :: "c_char list \<Rightarrow> nat option" where
  "strlen [] = None"
| "strlen (c # str) = (if c = 0 then Some 0 else map_option Suc (strlen str))"

text \<open>Uninitialised memory: \<open>n\<close> elements of unspecified content.\<close>

definition uninit_chars :: "world \<Rightarrow> nat \<Rightarrow> c_char list" where
  "uninit_chars w n = map (uninit_char w) [0..<n]"

definition uninit_jchars :: "world \<Rightarrow> nat \<Rightarrow> jchar list" where
  "uninit_jchars w n = map (uninit_jchar w) [0..<n]"

text \<open>\<^verbatim>\<open>malloc\<close>: \<open>n\<close> bytes of unspecified content, or \<open>NULL\<close>.\<close>

definition malloc :: "world \<Rightarrow> nat \<Rightarrow> c_char list option" where
  "malloc w n = (if malloc_ok w n then Some (uninit_chars w n) else None)"

text \<open>The same for an array of \<open>n\<close> \<open>jchar\<close>s (\<^verbatim>\<open>malloc(len * sizeof(jchar))\<close>).\<close>

definition malloc_jchar :: "world \<Rightarrow> nat \<Rightarrow> jchar list option" where
  "malloc_jchar w n = (if malloc_ok w (n * 2) then Some (uninit_jchars w n) else None)"

text \<open>
  C division of two \<open>jlong\<close>s truncates towards zero. The sources divide by the constant
  1000 only, so neither a zero divisor nor the overflow of \<open>LONG_MIN / -1\<close> arises.
\<close>

definition jlong_div :: "jlong \<Rightarrow> jlong \<Rightarrow> jlong" where
  "jlong_div a b = word_of_int (sint a sdiv sint b)"

section \<open>jni\_util: throwing and string marshaling\<close>

text \<open>\<^verbatim>\<open>JNU_ThrowByName\<close>: throws unless the class lookup failed (which left its own exception).\<close>

definition JNU_ThrowByName :: "world \<Rightarrow> string \<Rightarrow> failure" where
  "JNU_ThrowByName w name = (if FindClass_ok w name then Thrown name else JVMPending)"

definition JNU_ThrowOutOfMemoryError :: "world \<Rightarrow> failure" where
  "JNU_ThrowOutOfMemoryError w = JNU_ThrowByName w ''java/lang/OutOfMemoryError''"

text \<open>
  The pattern every wrapper ends with:
  \<^verbatim>\<open>newExcCls = FindClass(env, getErrorType(errno)); ... if(newExcCls!=NULL) ThrowNew(...)\<close>.
\<close>

definition throw_errno :: "world \<Rightarrow> c_int \<Rightarrow> failure" where
  "throw_errno w err = (if FindClass_ok w (getErrorType err) then Thrown (getErrorType err) else JVMPending)"

definition throw_errno_unix :: "world \<Rightarrow> c_int \<Rightarrow> failure" where
  "throw_errno_unix w err =
     (if FindClass_ok w (getErrorType_unix err) then Thrown (getErrorType_unix err) else JVMPending)"

text \<open>
  The loop of \<^verbatim>\<open>newString8859_1\<close>:
  \<^verbatim>\<open>for (i=0;i<len;i++) str1[i] = (unsigned char)str[i];\<close>
\<close>

function newString8859_1_loop :: "nat \<Rightarrow> nat \<Rightarrow> c_char list \<Rightarrow> jchar list \<Rightarrow> jchar list" where
  "newString8859_1_loop i len str str1 =
     (if i < len then newString8859_1_loop (Suc i) len str (str1[i := ucast (str ! i)])
      else str1)"
  by pat_completeness auto
termination
  by (relation "measure (\<lambda>(i, len, str, str1). len - i)") auto

declare newString8859_1_loop.simps [simp del]

text \<open>
  \<^verbatim>\<open>newString8859_1\<close>: the length is \<^verbatim>\<open>strlen(str)\<close>; up to 512 characters go through the
  stack array \<^verbatim>\<open>buf\<close>, longer strings through a heap array; \<^verbatim>\<open>NewString\<close> builds the Java
  string from the first \<open>len\<close> elements.
\<close>

definition newString8859_1 :: "world \<Rightarrow> c_char list \<Rightarrow> failure + jstring" where
  "newString8859_1 w str =
     (case strlen str of
        None \<Rightarrow> Inl OutOfBounds
      | Some len \<Rightarrow>
          (case (if len > 512 then malloc_jchar w len
                 else Some (uninit_jchars w 512)) of
             None \<Rightarrow> Inl (JNU_ThrowOutOfMemoryError w)
           | Some str1 \<Rightarrow>
               if NewString_ok w
               then Inr (take len (newString8859_1_loop 0 len str str1))
               else Inl JVMPending))"

text \<open>
  The loop of \<^verbatim>\<open>getString8859_1Chars\<close>, over the code units from index \<open>i\<close> on:
  \<^verbatim>\<open>if (unicode <= 0x00ff) result[i] = unicode; else result[i] = '?';\<close>
\<close>

fun getString8859_1Chars_loop :: "jchar list \<Rightarrow> nat \<Rightarrow> c_char list \<Rightarrow> c_char list" where
  "getString8859_1Chars_loop [] i result = result"
| "getString8859_1Chars_loop (unicode # str) i result =
     getString8859_1Chars_loop str (Suc i)
       (result[i := (if unicode \<le> 0x00ff then ucast unicode else 0x3f)])"

text \<open>
  \<^verbatim>\<open>getString8859_1Chars\<close>: \<open>NULL\<close> when the string cannot be pinned, OutOfMemoryError when
  \<^verbatim>\<open>malloc(len+1)\<close> fails, otherwise the filled buffer with the terminator at \<open>len\<close>.
\<close>

definition getString8859_1Chars :: "world \<Rightarrow> jstring \<Rightarrow> failure + c_char list" where
  "getString8859_1Chars w jstr =
     (let len = length jstr in
      if \<not> GetStringCritical_ok w then Inl JVMPending
      else (case malloc w (len + 1) of
              None \<Rightarrow> Inl (JNU_ThrowOutOfMemoryError w)
            | Some result \<Rightarrow> Inr ((getString8859_1Chars_loop jstr 0 result)[len := 0])))"

section \<open>The stat record\<close>

text \<open>The arguments of the \<^verbatim>\<open>Stat\<close> constructor (signature \<^verbatim>\<open>ZJJJIIIJJIJJJJ\<close>).\<close>

record Stat =
  exists :: bool
  device :: jlong
  inode :: jlong
  mode :: jlong
  numberLinks :: jint
  uid :: jint
  gid :: jint
  deviceIdentifier :: jlong
  size_field :: jlong
  blockSize :: jint
  blockCount :: jlong
  accessTime :: jlong
  modifyTime :: jlong
  changeTime :: jlong

text \<open>
  Modelled from the spec: the static field \<^verbatim>\<open>NOT_EXISTS\<close> of the Java class
  \<^verbatim>\<open>com.aoapps.io.posix.Stat\<close>, which the newer \<^verbatim>\<open>getStat0\<close> returns for a missing
  path. The Java sources are not under \<^verbatim>\<open>src/\<close>; the spec says that a result with
  existence flag false has every other field zero.
\<close>

definition NOT_EXISTS :: Stat where
  "NOT_EXISTS = \<lparr>exists = False, device = 0, inode = 0, mode = 0, numberLinks = 0, uid = 0,
     gid = 0, deviceIdentifier = 0, size_field = 0, blockSize = 0, blockCount = 0,
     accessTime = 0, modifyTime = 0, changeTime = 0\<rparr>"

text \<open>The conversions of the \<^verbatim>\<open>lstat\<close> buffer that both generations of \<^verbatim>\<open>getStat0\<close> perform.\<close>

definition stat_fields :: "struct_stat \<Rightarrow> Stat" where
  "stat_fields buff =
     \<lparr>exists = True,
      device = st_dev buff,
      inode = st_ino buff,
      mode = ucast (st_mode buff),
      numberLinks = ucast (st_nlink buff),
      uid = st_uid buff,
      gid = st_gid buff,
      deviceIdentifier = st_rdev buff,
      size_field = st_size buff,
      blockSize = ucast (st_blksize buff),
      blockCount = st_blocks buff,
      accessTime = st_atime buff * 1000,
      modifyTime = st_mtime buff * 1000,
      changeTime = st_ctime buff * 1000\<rparr>"

definition sizeof_struct_stat :: nat where "sizeof_struct_stat = 144"
definition sizeof_struct_utimbuf :: nat where "sizeof_struct_utimbuf = 16"
definition sizeof_struct_rand_pool_info :: nat where "sizeof_struct_rand_pool_info = 8"

section \<open>PosixFile and UnixFile: the wrappers\<close>

text \<open>
  Each wrapper yields the system calls it issued and either its result or the way it
  failed. \<^verbatim>\<open>malloc\<close> sets \<open>errno\<close> to \<open>ENOMEM\<close> when it fails.
\<close>

text \<open>
  \<^verbatim>\<open>Java_com_aoapps_io_posix_PosixFile_getStat0\<close>: for a missing path the locals other than
  \<open>exists\<close> stay unassigned and the static \<open>NOT_EXISTS\<close> object is returned; otherwise a new
  \<open>Stat\<close> is constructed. For any other error the exception class is looked up; should
  that lookup fail, \<open>newExcCls\<close> is still \<open>NULL\<close> and the code goes on to read \<open>exists\<close>,
  which was never assigned.
\<close>

definition Java_com_aoapps_io_posix_PosixFile_getStat0 ::
  "world \<Rightarrow> jstring \<Rightarrow> syscall list \<times> (failure + Stat)" where
  "Java_com_aoapps_io_posix_PosixFile_getStat0 w jfilename =
     (case getString8859_1Chars w jfilename of
        Inl e \<Rightarrow> ([], Inl e)
      | Inr filename \<Rightarrow>
          (case malloc w sizeof_struct_stat of
             None \<Rightarrow> ([], Inl (throw_errno w ENOMEM))
           | Some _ \<Rightarrow>
               ([Sys_lstat (c_string filename)],
                (case sys_lstat w (c_string filename) of
                   Inr buff \<Rightarrow>
                     if \<not> FindClass_ok w ''com/aoapps/io/posix/Stat'' then Inl JVMPending
                     else if \<not> GetMethodID_ok w then Inl JVMPending
                     else if \<not> NewObject_ok w then Inl JVMPending
                     else Inr (stat_fields buff)
                 | Inl errno \<Rightarrow>
                     if errno = ENOENT \<or> errno = ENOTDIR
                     then (if \<not> FindClass_ok w ''com/aoapps/io/posix/Stat'' then Inl JVMPending
                           else if \<not> GetStaticFieldID_ok w then Inl JVMPending
                           else Inr NOT_EXISTS)
                     else if FindClass_ok w (getErrorType errno)
                          then Inl (Thrown (getErrorType errno))
                          else Inl Unassigned))))"

text \<open>
  \<^verbatim>\<open>Java_com_aoindustries_io_unix_UnixFile_getStat0\<close> (older generation): for a missing
  path every local is set to zero; the values are handed to the \<^verbatim>\<open>init\<close> method of the
  caller's \<open>Stat\<close> object. The result is what \<^verbatim>\<open>init\<close> receives. A failed lookup of the
  exception class leads to the same read of unassigned locals as in the newer generation.
\<close>

definition Java_com_aoindustries_io_unix_UnixFile_getStat0 ::
  "world \<Rightarrow> jstring \<Rightarrow> syscall list \<times> (failure + Stat)" where
  "Java_com_aoindustries_io_unix_UnixFile_getStat0 w jfilename =
     (case getString8859_1Chars w jfilename of
        Inl e \<Rightarrow> ([], Inl e)
      | Inr filename \<Rightarrow>
          (case malloc w sizeof_struct_stat of
             None \<Rightarrow> ([], Inl (throw_errno_unix w ENOMEM))
           | Some _ \<Rightarrow>
               ([Sys_lstat (c_string filename)],
                (case (case sys_lstat w (c_string filename) of
                         Inr buff \<Rightarrow> Inr (stat_fields buff)
                       | Inl errno \<Rightarrow>
                           if errno = ENOENT \<or> errno = ENOTDIR
                           then Inr \<lparr>exists = False, device = 0, inode = 0, mode = 0,
                                  numberLinks = 0, uid = 0, gid = 0, deviceIdentifier = 0,
                                  size_field = 0, blockSize = 0, blockCount = 0,
                                  accessTime = 0, modifyTime = 0, changeTime = 0\<rparr>
                           else if FindClass_ok w (getErrorType_unix errno)
                                then Inl (Thrown (getErrorType_unix errno))
                                else Inl Unassigned) of
                   Inl e \<Rightarrow> Inl e
                 | Inr values \<Rightarrow>
                     if \<not> FindClass_ok w ''com/aoindustries/io/unix/Stat'' then Inl JVMPending
                     else if \<not> GetMethodID_ok w then Inl JVMPending
                     else Inr values))))"

text \<open>
  \<^verbatim>\<open>Java_com_aoapps_io_posix_PosixFile_utime0\<close>: the \<^verbatim>\<open>utimbuf\<close> is allocated first, then the
  name is encoded; both times are divided by 1000 before the call.
\<close>

definition Java_com_aoapps_io_posix_PosixFile_utime0 ::
  "world \<Rightarrow> jstring \<Rightarrow> jlong \<Rightarrow> jlong \<Rightarrow> syscall list \<times> (failure + unit)" where
  "Java_com_aoapps_io_posix_PosixFile_utime0 w jfilename atime mtime =
     (case malloc w sizeof_struct_utimbuf of
        None \<Rightarrow> ([], Inl (throw_errno w ENOMEM))
      | Some _ \<Rightarrow>
          (case getString8859_1Chars w jfilename of
             Inl e \<Rightarrow> ([], Inl e)
           | Inr filename \<Rightarrow>
               (let actime = jlong_div atime 1000;
                    modtime = jlong_div mtime 1000
                in ([Sys_utime (c_string filename) actime modtime],
                    (case sys_utime w (c_string filename) actime modtime of
                       None \<Rightarrow> Inr ()
                     | Some errno \<Rightarrow> Inl (throw_errno w errno))))))"

text \<open>
  The \<^verbatim>\<open>readlink\<close> system call: it stores at most \<open>bufsiz\<close> bytes of the link's contents at
  the start of the buffer, appends no terminator, and returns the number of bytes stored.
\<close>

definition readlink :: "world \<Rightarrow> c_char list \<Rightarrow> c_char list \<Rightarrow> nat \<Rightarrow> c_char list \<times> (c_int + nat)" where
  "readlink w path buffer bufsiz =
     (case sys_readlink w path of
        Inl errno \<Rightarrow> (buffer, Inl errno)
      | Inr contents \<Rightarrow>
          (take bufsiz contents @ drop (length (take bufsiz contents)) buffer,
           Inr (length (take bufsiz contents))))"

text \<open>
  \<^verbatim>\<open>Java_com_aoapps_io_posix_PosixFile_readLink0\<close>: a 4097-byte buffer, \<^verbatim>\<open>readlink\<close> bounded by
  4096, the terminator stored at \<open>charCount\<close>, the buffer decoded as a C string.
\<close>

definition Java_com_aoapps_io_posix_PosixFile_readLink0 ::
  "world \<Rightarrow> jstring \<Rightarrow> syscall list \<times> (failure + jstring)" where
  "Java_com_aoapps_io_posix_PosixFile_readLink0 w jfilename =
     (case getString8859_1Chars w jfilename of
        Inl e \<Rightarrow> ([], Inl e)
      | Inr filename \<Rightarrow>
          (case malloc w 4097 of
             None \<Rightarrow> ([], Inl (throw_errno w ENOMEM))
           | Some destination \<Rightarrow>
               ([Sys_readlink (c_string filename) 4096],
                (case readlink w (c_string filename) destination 4096 of
                   (destination', Inr charCount) \<Rightarrow>
                     newString8859_1 w (destination'[charCount := 0])
                 | (destination', Inl errno) \<Rightarrow> Inl (throw_errno w errno)))))"

section \<open>DevRandom: entropy injection\<close>

definition c_chars :: "string \<Rightarrow> c_char list" where
  "c_chars s = map (\<lambda>c. of_nat (of_char c)) s"

text \<open>The copy loop: \<^verbatim>\<open>for(c=0;c<len;c++) ((char*)rand_info->buf)[c]=body[c];\<close>\<close>

fun addEntropy0_loop :: "jbyte list \<Rightarrow> nat \<Rightarrow> c_char list \<Rightarrow> c_char list" where
  "addEntropy0_loop [] c buffer = buffer"
| "addEntropy0_loop (b # body) c buffer = addEntropy0_loop body (Suc c) (buffer[c := b])"

text \<open>
  \<^verbatim>\<open>Java_com_aoapps_io_posix_linux_DevRandom_addEntropy0\<close>: \<open>len\<close> is a 32-bit \<open>jsize\<close>;
  \<^verbatim>\<open>entropy_count=len<<3\<close> and \<^verbatim>\<open>buf_size=len\<close> are 32-bit \<open>int\<close> fields; the device is used
  only when \<^verbatim>\<open>fdout>0\<close>; a failing \<^verbatim>\<open>GetByteArrayElements\<close> and a descriptor that is not
  positive are classified by whatever \<open>errno\<close> holds.
\<close>

definition Java_com_aoapps_io_posix_linux_DevRandom_addEntropy0 ::
  "world \<Rightarrow> jbyte list \<Rightarrow> syscall list \<times> (failure + unit)" where
  "Java_com_aoapps_io_posix_linux_DevRandom_addEntropy0 w randomData =
     (let len = (of_nat (length randomData) :: c_int) in
      case malloc w (sizeof_struct_rand_pool_info + length randomData) of
        None \<Rightarrow> ([], Inl (throw_errno w ENOMEM))
      | Some mem \<Rightarrow>
          if \<not> GetByteArrayElements_ok w then ([], Inl (throw_errno w (stale_errno w)))
          else
            (let rand_info = \<lparr>entropy_count = push_bit 3 len, buf_size = len,
                   buf = addEntropy0_loop randomData 0 (drop sizeof_struct_rand_pool_info mem)\<rparr>
             in case sys_open w (c_chars ''/dev/random'') of
                  Inl errno \<Rightarrow> ([Sys_open (c_chars ''/dev/random'')], Inl (throw_errno w errno))
                | Inr fdout \<Rightarrow>
                    if 0 <s fdout
                    then ([Sys_open (c_chars ''/dev/random''),
                           Sys_ioctl_RNDADDENTROPY fdout rand_info,
                           Sys_close fdout],
                          (case sys_ioctl w fdout rand_info of
                             None \<Rightarrow> Inr ()
                           | Some errno \<Rightarrow> Inl (throw_errno w errno)))
                    else ([Sys_open (c_chars ''/dev/random'')],
                          Inl (throw_errno w (stale_errno w)))))"

text \<open>A world in which every JNI call and allocation succeeds, for the given kernel answers.\<close>

definition resources_ok :: "world \<Rightarrow> bool" where
  "resources_ok w \<longleftrightarrow>
     GetStringCritical_ok w \<and> GetByteArrayElements_ok w \<and> NewString_ok w \<and>
     GetStaticFieldID_ok w \<and> GetMethodID_ok w \<and> NewObject_ok w \<and>
     FindClass_ok w = (\<lambda>name. True) \<and> malloc_ok w = (\<lambda>n. True)"

section \<open>Notions used to state the properties\<close>

text \<open>The byte \<^verbatim>\<open>getString8859_1Chars\<close> stores for one code unit.\<close>

abbreviation latin1 :: "jchar \<Rightarrow> c_char" where
  "latin1 \<equiv> (\<lambda>unicode. if unicode \<le> 0x00ff then ucast unicode else 0x3f)"

text \<open>The code units of a Java string before its first NUL (all of them when it has none).\<close>

definition before_first_NUL :: "jstring \<Rightarrow> jstring" where
  "before_first_NUL s = takeWhile (\<lambda>c. c \<noteq> 0) s"

text \<open>
  The spec's \<open>decode(encode(s))\<close>: the buffer of \<^verbatim>\<open>getString8859_1Chars\<close> handed to
  \<^verbatim>\<open>newString8859_1\<close>, as \<^verbatim>\<open>mktemp0\<close> does with its template.
\<close>

definition decode_encode :: "world \<Rightarrow> jstring \<Rightarrow> failure + jstring" where
  "decode_encode w s =
     (case getString8859_1Chars w s of Inl e \<Rightarrow> Inl e | Inr str \<Rightarrow> newString8859_1 w str)"

text \<open>A file status whose access and modification times are the given seconds.\<close>

definition stat_at :: "time_t \<Rightarrow> time_t \<Rightarrow> struct_stat" where
  "stat_at actime modtime =
     \<lparr>st_dev = 0, st_ino = 0, st_nlink = 1, st_mode = 0, st_uid = 0, st_gid = 0, st_rdev = 0,
      st_size = 0, st_blksize = 0, st_blocks = 0, st_atime = actime, st_mtime = modtime,
      st_ctime = 0\<rparr>"

text \<open>
  A concrete world for evaluating the model: every JNI call and allocation succeeds,
  uninitialised memory holds \<open>0xAA\<close>, no path exists (\<open>ENOENT\<close>), \<^verbatim>\<open>/dev/random\<close> opens
  as descriptor 3 and the control request is accepted.
\<close>

definition quiet_world :: world where
  "quiet_world =
     \<lparr>GetStringCritical_ok = True, GetByteArrayElements_ok = True, NewString_ok = True,
      FindClass_ok = (\<lambda>name. True), GetStaticFieldID_ok = True, GetMethodID_ok = True,
      NewObject_ok = True, malloc_ok = (\<lambda>n. True), uninit_char = (\<lambda>i. 0xAA),
      uninit_jchar = (\<lambda>i. 0xAAAA), stale_errno = 0,
      sys_lstat = (\<lambda>path. Inl ENOENT), sys_utime = (\<lambda>path actime modtime. Some ENOENT),
      sys_readlink = (\<lambda>path. Inl ENOENT), sys_open = (\<lambda>path. Inr 3),
      sys_ioctl = (\<lambda>fd info. None)\<rparr>"

text \<open>
  A world in which \<^verbatim>\<open>utime\<close> succeeds and the file system has stored the seconds it was
  given: a later \<^verbatim>\<open>lstat\<close> reports them.
\<close>

definition storing_world :: "time_t \<Rightarrow> time_t \<Rightarrow> world" where
  "storing_world actime modtime =
     quiet_world\<lparr>sys_utime := (\<lambda>path a m. None),
                 sys_lstat := (\<lambda>path. Inr (stat_at actime modtime))\<rparr>"

text \<open>
  A world in which \<^verbatim>\<open>utime\<close> succeeds on a file system that keeps time stamps within a
  limited range, as ext4 does (seconds from \<open>-2^31\<close> to \<open>15032385535\<close>): whatever
  seconds lie outside are stored as the nearest bound, and a later \<^verbatim>\<open>lstat\<close> reports those.
\<close>

definition clamping_world :: world where
  "clamping_world =
     quiet_world\<lparr>sys_utime := (\<lambda>path a m. None),
                 sys_lstat := (\<lambda>path. Inr (stat_at 15032385535 (- 2147483648)))\<rparr>"

section \<open>The classifier table\<close>

lemmas errno_defs =
  EPERM_def ENOENT_def EINTR_def EIO_def EBADF_def ENOMEM_def EACCES_def EFAULT_def
  EEXIST_def EXDEV_def ENOTDIR_def EINVAL_def ENOSPC_def EROFS_def EMLINK_def
  ENAMETOOLONG_def ENOSYS_def ELOOP_def

lemmas exception_defs =
  FILE_NOT_FOUND_EXCEPTION_def IO_EXCEPTION_def ILLEGAL_ARGUMENT_EXCEPTION_def
  INTERRUPTED_IO_EXCEPTION_def NO_SUCH_METHOD_EXCEPTION_def OUT_OF_MEMORY_EXCEPTION_def
  RUNTIME_EXCEPTION_def SECURITY_EXCEPTION_def

text \<open>
  The eight exception classes are pairwise different, so a class name identifies one
  error category: SecurityViolation is \<open>SECURITY_EXCEPTION\<close>, IOFailure is
  \<open>IO_EXCEPTION\<close>, InvalidArgument is \<open>ILLEGAL_ARGUMENT_EXCEPTION\<close>, InterruptedIO is
  \<open>INTERRUPTED_IO_EXCEPTION\<close>, MethodUnsupported is \<open>NO_SUCH_METHOD_EXCEPTION\<close>,
  OutOfMemory is \<open>OUT_OF_MEMORY_EXCEPTION\<close>, GenericRuntimeFailure is
  \<open>RUNTIME_EXCEPTION\<close> and PathNotFound is \<open>FILE_NOT_FOUND_EXCEPTION\<close>.
\<close>

lemma exception_classes_distinct:
  "distinct [FILE_NOT_FOUND_EXCEPTION, IO_EXCEPTION, ILLEGAL_ARGUMENT_EXCEPTION,
     INTERRUPTED_IO_EXCEPTION, NO_SUCH_METHOD_EXCEPTION, OUT_OF_MEMORY_EXCEPTION,
     RUNTIME_EXCEPTION, SECURITY_EXCEPTION]"
  by (simp add: exception_defs)

text \<open>
  C1. The classifier is defined on every error code (it is a closed chain of
  comparisons ending in an unconditional default) and realises the table: EACCES and
  EPERM give SecurityViolation; EBADF, EEXIST, EIO, EMLINK, ENOSPC, ENOTDIR, EROFS and
  EXDEV give IOFailure; EFAULT gives GenericRuntimeFailure; EINTR gives InterruptedIO;
  EINVAL and ENAMETOOLONG give InvalidArgument; ELOOP and ENOENT give PathNotFound;
  ENOMEM gives OutOfMemory; ENOSYS gives MethodUnsupported; every code that is none of
  these gives GenericRuntimeFailure.
\<close>

theorem getErrorType_table:
  "getErrorType EACCES = SECURITY_EXCEPTION \<and>
   getErrorType EPERM = SECURITY_EXCEPTION \<and>
   getErrorType EBADF = IO_EXCEPTION \<and>
   getErrorType EEXIST = IO_EXCEPTION \<and>
   getErrorType EIO = IO_EXCEPTION \<and>
   getErrorType EMLINK = IO_EXCEPTION \<and>
   getErrorType ENOSPC = IO_EXCEPTION \<and>
   getErrorType ENOTDIR = IO_EXCEPTION \<and>
   getErrorType EROFS = IO_EXCEPTION \<and>
   getErrorType EXDEV = IO_EXCEPTION \<and>
   getErrorType EFAULT = RUNTIME_EXCEPTION \<and>
   getErrorType EINTR = INTERRUPTED_IO_EXCEPTION \<and>
   getErrorType EINVAL = ILLEGAL_ARGUMENT_EXCEPTION \<and>
   getErrorType ENAMETOOLONG = ILLEGAL_ARGUMENT_EXCEPTION \<and>
   getErrorType ELOOP = FILE_NOT_FOUND_EXCEPTION \<and>
   getErrorType ENOENT = FILE_NOT_FOUND_EXCEPTION \<and>
   getErrorType ENOMEM = OUT_OF_MEMORY_EXCEPTION \<and>
   getErrorType ENOSYS = NO_SUCH_METHOD_EXCEPTION \<and>
   (err \<notin> {EACCES, EPERM, EBADF, EEXIST, EIO, EMLINK, ENOSPC, ENOTDIR, EROFS, EXDEV,
       EFAULT, EINTR, EINVAL, ENAMETOOLONG, ELOOP, ENOENT, ENOMEM, ENOSYS}
      \<longrightarrow> getErrorType err = RUNTIME_EXCEPTION)"
  by (simp add: getErrorType_def errno_defs)

theorem getErrorType_table_witness:
  "(99 :: c_int) \<notin> {EACCES, EPERM, EBADF, EEXIST, EIO, EMLINK, ENOSPC, ENOTDIR, EROFS,
       EXDEV, EFAULT, EINTR, EINVAL, ENAMETOOLONG, ELOOP, ENOENT, ENOMEM, ENOSYS}
   \<and> getErrorType 99 = RUNTIME_EXCEPTION"
  using getErrorType_table [of 99] by (simp add: errno_defs)

text \<open>
  C2. The classifier of the newer binding generation and the classifier of the older
  one return the same exception class for every error code.
\<close>

theorem getErrorType_generations_agree:
  "getErrorType err = getErrorType_unix err"
  by (simp add: getErrorType_def getErrorType_unix_def)

section \<open>String marshaling: the loops and the two functions\<close>

lemma length_uninit_chars [simp]: "length (uninit_chars w n) = n"
  by (simp add: uninit_chars_def)

lemma length_uninit_jchars [simp]: "length (uninit_jchars w n) = n"
  by (simp add: uninit_jchars_def)

lemma getString8859_1Chars_loop_eq:
  "i + length str \<le> length result \<Longrightarrow>
   getString8859_1Chars_loop str i result
     = take i result @ map latin1 str @ drop (i + length str) result"
proof (induction str arbitrary: i result)
  case Nil
  then show ?case by simp
next
  case (Cons unicode str)
  have "getString8859_1Chars_loop (unicode # str) i result
      = getString8859_1Chars_loop str (Suc i) (result[i := latin1 unicode])"
    by simp
  also have "\<dots> = take (Suc i) (result[i := latin1 unicode]) @ map latin1 str
      @ drop (Suc i + length str) (result[i := latin1 unicode])"
    using Cons.prems by (intro Cons.IH) simp
  also have "take (Suc i) (result[i := latin1 unicode]) = take i result @ [latin1 unicode]"
    using Cons.prems by (simp add: take_Suc_conv_app_nth)
  also have "drop (Suc i + length str) (result[i := latin1 unicode])
      = drop (i + length (unicode # str)) result"
    by simp
  finally show ?case by simp
qed

lemma strlen_terminated:
  "0 \<notin> set xs \<Longrightarrow> strlen (xs @ 0 # ys) = Some (length xs)"
  by (induction xs) auto

lemma strlen_c_string:
  "strlen str = Some n \<Longrightarrow> n = length (c_string str)"
  by (induction str arbitrary: n) (auto simp: c_string_def split: if_splits)

lemma strlen_None: "strlen str = None \<longleftrightarrow> 0 \<notin> set str"
  by (induction str) auto


lemma getString8859_1Chars_Inr:
  assumes "getString8859_1Chars w jstr = Inr result"
  shows "result = map latin1 jstr @ [0]"
proof -
  from assms obtain mem where mem: "malloc w (length jstr + 1) = Some mem"
    and res: "result = (getString8859_1Chars_loop jstr 0 mem)[length jstr := 0]"
    by (auto simp: getString8859_1Chars_def Let_def split: if_splits option.splits)
  from mem have len: "length mem = length jstr + 1"
    by (auto simp: malloc_def split: if_splits)
  then have "length (drop (length jstr) mem) = Suc 0" by simp
  then obtain x where x: "drop (length jstr) mem = [x]"
    by (auto simp: length_Suc_conv simp del: length_drop)
  from len have "getString8859_1Chars_loop jstr 0 mem = map latin1 jstr @ drop (length jstr) mem"
    by (simp add: getString8859_1Chars_loop_eq)
  with x res show ?thesis
    by (simp add: list_update_append)
qed

lemma getString8859_1Chars_ok:
  "GetStringCritical_ok w \<Longrightarrow> malloc_ok w (length jstr + 1) \<Longrightarrow>
   getString8859_1Chars w jstr = Inr (map latin1 jstr @ [0])"
proof -
  assume "GetStringCritical_ok w" "malloc_ok w (length jstr + 1)"
  then obtain result where r: "getString8859_1Chars w jstr = Inr result"
    by (simp add: getString8859_1Chars_def Let_def malloc_def)
  with getString8859_1Chars_Inr [OF r] show ?thesis by simp
qed

lemma newString8859_1_loop_eq:
  "i \<le> len \<Longrightarrow> len \<le> length str \<Longrightarrow> len \<le> length str1 \<Longrightarrow>
   take len (newString8859_1_loop i len str str1)
     = take i str1 @ map ucast (take (len - i) (drop i str))"
proof (induction i len str str1 rule: newString8859_1_loop.induct)
  case (1 i len str str1)
  show ?case
  proof (cases "i < len")
    case True
    then have "take len (newString8859_1_loop i len str str1)
        = take len (newString8859_1_loop (Suc i) len str (str1[i := ucast (str ! i)]))"
      by (subst newString8859_1_loop.simps) simp
    also have "\<dots> = take (Suc i) (str1[i := ucast (str ! i)])
        @ map ucast (take (len - Suc i) (drop (Suc i) str))"
      using "1.IH" [OF True] True "1.prems" by simp
    also have "take (Suc i) (str1[i := ucast (str ! i)]) = take i str1 @ [ucast (str ! i)]"
      using True "1.prems" by (simp add: take_Suc_conv_app_nth)
    also have "(take i str1 @ [ucast (str ! i)]) @ map ucast (take (len - Suc i) (drop (Suc i) str))
        = take i str1 @ map ucast (take (len - i) (drop i str))"
    proof -
      have "drop i str = str ! i # drop (Suc i) str"
        using True "1.prems" by (simp add: Cons_nth_drop_Suc)
      moreover have "len - i = Suc (len - Suc i)"
        using True by simp
      ultimately show ?thesis by simp
    qed
    finally show ?thesis .
  next
    case False
    with "1.prems" show ?thesis
      by (subst newString8859_1_loop.simps) simp
  qed
qed

lemma strlen_le: "strlen str = Some n \<Longrightarrow> n < length str"
  by (induction str arbitrary: n) (auto split: if_splits)

lemma newString8859_1_Inr:
  assumes "newString8859_1 w str = Inr jstr"
  shows "jstr = map ucast (c_string str)"
proof -
  from assms obtain len str1 where len: "strlen str = Some len"
    and str1: "(if len > 512 then malloc_jchar w len else Some (uninit_jchars w 512)) = Some str1"
    and res: "jstr = take len (newString8859_1_loop 0 len str str1)"
    by (auto simp: newString8859_1_def split: option.splits if_splits)
  from str1 have l1: "len \<le> length str1"
    by (auto simp: malloc_jchar_def split: if_splits)
  from len have l2: "len \<le> length str"
    using strlen_le by fastforce
  have "take len (newString8859_1_loop 0 len str str1) = map ucast (take len str)"
    using newString8859_1_loop_eq [of 0 len str str1] l1 l2 by simp
  with res have "jstr = map ucast (take len str)"
    by (simp only:)
  moreover have "take len str = c_string str"
    unfolding strlen_c_string [OF len] c_string_def by (rule takeWhile_eq_take [symmetric])
  ultimately show ?thesis by simp
qed

lemma newString8859_1_ok:
  assumes "0 \<in> set str" "NewString_ok w" "malloc_ok w (length (c_string str) * 2)"
  shows "newString8859_1 w str = Inr (map ucast (c_string str))"
proof -
  from assms(1) obtain len where len: "strlen str = Some len"
    using strlen_None [of str] by (cases "strlen str") auto
  then have "len = length (c_string str)" by (rule strlen_c_string)
  with len assms(2,3) obtain jstr where r: "newString8859_1 w str = Inr jstr"
    by (cases "512 < length (c_string str)") (simp_all add: newString8859_1_def malloc_jchar_def)
  with newString8859_1_Inr [OF r] show ?thesis by simp
qed

lemma unat_ucast_latin1:
  fixes c :: jchar
  assumes "c \<le> 0xff"
  shows "unat (ucast c :: c_char) = unat c"
proof -
  from assms have "unat c < 2 ^ 8"
    by (simp add: word_le_nat_alt)
  then have "take_bit 8 (unat c) = unat c"
    by (simp only: take_bit_nat_eq_self)
  then show ?thesis
    by (simp add: unsigned_ucast_eq)
qed

lemma ucast_ucast_latin1:
  fixes c :: jchar
  assumes "c \<le> 0xff"
  shows "ucast (ucast c :: c_char) = c"
proof -
  from assms have "c < 2 ^ 8"
    by (simp add: word_le_nat_alt word_less_nat_alt)
  then have "take_bit 8 c = c"
    by (simp add: mod_word_less take_bit_eq_mod)
  moreover have "(ucast (ucast c :: c_char) :: jchar) = take_bit 8 c"
    by (rule bit_word_eqI) (auto simp: bit_simps)
  ultimately show ?thesis by (simp only:)
qed

lemma ucast_latin1_eq_0:
  fixes c :: jchar
  assumes "c \<le> 0xff"
  shows "(ucast c :: c_char) = 0 \<longleftrightarrow> c = 0"
  using unat_ucast_latin1 [OF assms] by (simp add: word_unat_eq_iff)

lemma resources_ok_quiet_world: "resources_ok quiet_world"
  by (simp add: resources_ok_def quiet_world_def)

lemma latin1_eq_0: "latin1 c = 0 \<longleftrightarrow> c = 0"
  by (auto simp: ucast_latin1_eq_0)

lemma c_string_encoded:
  "c_string (map latin1 s @ [0]) = map latin1 (before_first_NUL s)"
proof (induction s)
  case Nil
  show ?case by (simp add: c_string_def before_first_NUL_def)
next
  case (Cons c s)
  then show ?case
    using latin1_eq_0 [of c]
    by (simp add: c_string_def before_first_NUL_def del: of_nat_numeral)
qed

lemma ucast_latin1: "ucast (latin1 c) = (if c \<le> 0xff then c else 0x3f)"
  by (simp add: ucast_ucast_latin1)

lemma decode_encode_Inr:
  assumes "decode_encode w s = Inr t"
  shows "t = map (\<lambda>c. if c \<le> 0xff then c else 0x3f) (before_first_NUL s)"
proof -
  from assms obtain str where enc: "getString8859_1Chars w s = Inr str"
    and dec: "newString8859_1 w str = Inr t"
    by (auto simp: decode_encode_def split: sum.splits)
  have "t = map ucast (c_string (map latin1 s @ [0]))"
    using newString8859_1_Inr [OF dec] getString8859_1Chars_Inr [OF enc] by simp
  then have "t = map (\<lambda>c. ucast (latin1 c)) (before_first_NUL s)"
    by (simp only: c_string_encoded map_map comp_def)
  then show ?thesis
    by (simp only: ucast_latin1)
qed

lemma decode_encode_ok:
  assumes "resources_ok w"
  shows "decode_encode w s = Inr (map (\<lambda>c. if c \<le> 0xff then c else 0x3f) (before_first_NUL s))"
proof -
  from assms have enc: "getString8859_1Chars w s = Inr (map latin1 s @ [0])"
    by (intro getString8859_1Chars_ok) (simp_all add: resources_ok_def)
  from assms have "newString8859_1 w (map latin1 s @ [0])
      = Inr (map ucast (c_string (map latin1 s @ [0])))"
    by (intro newString8859_1_ok) (simp_all add: resources_ok_def)
  with enc obtain t where t: "decode_encode w s = Inr t"
    by (simp add: decode_encode_def)
  with decode_encode_Inr [OF t] show ?thesis by simp
qed

lemma before_first_NUL_id: "0 \<notin> set s \<Longrightarrow> before_first_NUL s = s"
  by (auto simp: before_first_NUL_def)

lemma length_before_first_NUL: "0 \<in> set s \<Longrightarrow> length (before_first_NUL s) < length s"
  unfolding before_first_NUL_def
  by (induction s) auto

lemma nth_before_first_NUL: "0 \<in> set s \<Longrightarrow> s ! length (before_first_NUL s) = 0"
  unfolding before_first_NUL_def
  by (induction s) auto

text \<open>
  C3. For every string all of whose code units lie between 1 and 255, decoding the
  encoding gives the string back: when the JNI calls and allocations succeed the result
  is the string itself, and in no world is any other string returned.
\<close>

theorem decode_encode_printable:
  assumes "\<forall>c\<in>set s. 1 \<le> c \<and> c \<le> 255"
  shows "(resources_ok w \<longrightarrow> decode_encode w s = Inr s) \<and>
         (\<forall>t. decode_encode w s = Inr t \<longrightarrow> t = s)"
proof -
  from assms have "0 \<notin> set s" by auto
  then have "before_first_NUL s = s" by (rule before_first_NUL_id)
  moreover from assms have "map (\<lambda>c. if c \<le> 0xff then c else 0x3f) s = s"
    by (simp add: map_idI)
  ultimately have "map (\<lambda>c. if c \<le> 0xff then c else 0x3f) (before_first_NUL s) = s"
    by simp
  then show ?thesis
    using decode_encode_ok [of w s] decode_encode_Inr [of w s] by auto
qed

theorem decode_encode_printable_witness:
  "1 \<le> (0x41 :: jchar) \<and> (0x41 :: jchar) \<le> 255 \<and> 1 \<le> (0xE9 :: jchar) \<and> (0xE9 :: jchar) \<le> 255 \<and>
   1 \<le> (0xFF :: jchar) \<and> (0xFF :: jchar) \<le> 255 \<and> resources_ok quiet_world \<and>
   decode_encode quiet_world [0x41, 0xE9, 0xFF] = Inr [0x41, 0xE9, 0xFF]"
proof -
  have h: "\<forall>c\<in>set [0x41, 0xE9, 0xFF :: jchar]. 1 \<le> c \<and> c \<le> 255"
    by simp
  from decode_encode_printable [OF h, of quiet_world] resources_ok_quiet_world
  have "decode_encode quiet_world [0x41, 0xE9, 0xFF] = Inr [0x41, 0xE9, 0xFF]"
    by blast
  then show ?thesis
    using resources_ok_quiet_world by simp
qed

text \<open>
  C10, as stated, fails: for the string of the two code units \<open>0x100\<close> and NUL the
  round trip yields the single character \<open>?\<close>, not the prefix before the first NUL.
\<close>

theorem decode_encode_NUL_counterexample:
  "0 \<in> set [0x100, 0 :: jchar] \<and>
   decode_encode quiet_world [0x100, 0] = Inr [0x3f] \<and>
   before_first_NUL [0x100, 0] = [0x100] \<and>
   decode_encode quiet_world [0x100, 0] \<noteq> Inr (before_first_NUL [0x100, 0])"
  using decode_encode_ok [OF resources_ok_quiet_world, of "[0x100, 0]"]
  by (simp add: before_first_NUL_def)

text \<open>
  C10, amended. For every string that contains NUL the encoded buffer holds a zero at
  the interior index of the first NUL, so its C-string reading is the encoding of the
  prefix before that NUL; the round trip returns that prefix with every code unit above
  255 replaced by \<open>?\<close> (the prefix itself when it has no such code unit), which is shorter
  than the string and so differs from it; no error is raised for it.
\<close>

theorem decode_encode_NUL:
  assumes "0 \<in> set s"
  shows "(resources_ok w \<longrightarrow>
            getString8859_1Chars w s = Inr (map latin1 s @ [0]) \<and>
            length (before_first_NUL s) < length s \<and>
            (map latin1 s @ [0]) ! length (before_first_NUL s) = 0 \<and>
            c_string (map latin1 s @ [0]) = map latin1 (before_first_NUL s) \<and>
            decode_encode w s
              = Inr (map (\<lambda>c. if c \<le> 0xff then c else 0x3f) (before_first_NUL s))) \<and>
         (\<forall>t. decode_encode w s = Inr t \<longrightarrow>
            t = map (\<lambda>c. if c \<le> 0xff then c else 0x3f) (before_first_NUL s) \<and>
            length t < length s \<and> t \<noteq> s) \<and>
         ((\<forall>c\<in>set (before_first_NUL s). c \<le> 0xff) \<longrightarrow>
            (\<forall>t. decode_encode w s = Inr t \<longrightarrow> t = before_first_NUL s))"
proof -
  note len = length_before_first_NUL [OF assms]
  have nul: "(map latin1 s @ [0]) ! length (before_first_NUL s) = 0"
    using len nth_before_first_NUL [OF assms] by (simp add: nth_append)
  have enc: "getString8859_1Chars w s = Inr (map latin1 s @ [0])" if "resources_ok w"
    using that by (intro getString8859_1Chars_ok) (simp_all add: resources_ok_def)
  have dec: "t = map (\<lambda>c. if c \<le> 0xff then c else 0x3f) (before_first_NUL s) \<and>
      length t < length s \<and> t \<noteq> s" if "decode_encode w s = Inr t" for t
  proof -
    have t: "t = map (\<lambda>c. if c \<le> 0xff then c else 0x3f) (before_first_NUL s)"
      by (rule decode_encode_Inr [OF that])
    then have "length t = length (before_first_NUL s)"
      by (simp only: length_map)
    with len have "length t < length s" by simp
    with t show ?thesis by blast
  qed
  have same: "map (\<lambda>c. if c \<le> 0xff then c else 0x3f) (before_first_NUL s) = before_first_NUL s"
    if "\<forall>c\<in>set (before_first_NUL s). c \<le> 0xff"
    using that by (simp add: map_idI)
  have part1: "resources_ok w \<longrightarrow>
            getString8859_1Chars w s = Inr (map latin1 s @ [0]) \<and>
            length (before_first_NUL s) < length s \<and>
            (map latin1 s @ [0]) ! length (before_first_NUL s) = 0 \<and>
            c_string (map latin1 s @ [0]) = map latin1 (before_first_NUL s) \<and>
            decode_encode w s
              = Inr (map (\<lambda>c. if c \<le> 0xff then c else 0x3f) (before_first_NUL s))"
    using len nul enc decode_encode_ok [of w s] c_string_encoded [of s] by blast
  have part2: "\<forall>t. decode_encode w s = Inr t \<longrightarrow>
            t = map (\<lambda>c. if c \<le> 0xff then c else 0x3f) (before_first_NUL s) \<and>
            length t < length s \<and> t \<noteq> s"
    using dec by blast
  have part3: "(\<forall>c\<in>set (before_first_NUL s). c \<le> 0xff) \<longrightarrow>
            (\<forall>t. decode_encode w s = Inr t \<longrightarrow> t = before_first_NUL s)"
  proof (intro impI allI)
    fix t
    assume "\<forall>c\<in>set (before_first_NUL s). c \<le> 0xff" and "decode_encode w s = Inr t"
    then show "t = before_first_NUL s"
      using same decode_encode_Inr [of w s t] by (simp only:)
  qed
  from part1 part2 part3 show ?thesis by (intro conjI)
qed

theorem decode_encode_NUL_witness:
  "0 \<in> set [0x41, 0, 0x42 :: jchar] \<and> resources_ok quiet_world \<and>
   getString8859_1Chars quiet_world [0x41, 0, 0x42] = Inr [0x41, 0, 0x42, 0] \<and>
   decode_encode quiet_world [0x41, 0, 0x42] = Inr [0x41]"
proof -
  have h: "0 \<in> set [0x41, 0, 0x42 :: jchar]" by simp
  have p: "before_first_NUL [0x41, 0, 0x42] = [0x41]"
    by (simp add: before_first_NUL_def)
  from decode_encode_NUL [OF h, of quiet_world] resources_ok_quiet_world
  have "getString8859_1Chars quiet_world [0x41, 0, 0x42] = Inr (map latin1 [0x41, 0, 0x42] @ [0])"
    and "decode_encode quiet_world [0x41, 0, 0x42]
           = Inr (map (\<lambda>c. if c \<le> 0xff then c else 0x3f) (before_first_NUL [0x41, 0, 0x42]))"
    by blast+
  then show ?thesis
    using h resources_ok_quiet_world by (simp add: p)
qed

section \<open>The stat wrappers\<close>

lemma resources_encode:
  "resources_ok w \<Longrightarrow> getString8859_1Chars w s = Inr (map latin1 s @ [0])"
  by (intro getString8859_1Chars_ok) (simp_all add: resources_ok_def)

lemma resources_malloc: "resources_ok w \<Longrightarrow> malloc w n = Some (uninit_chars w n)"
  by (simp add: resources_ok_def malloc_def)

lemma getStat0_trace:
  assumes "getString8859_1Chars w jfilename = Inr filename" "malloc_ok w sizeof_struct_stat"
  shows "fst (Java_com_aoapps_io_posix_PosixFile_getStat0 w jfilename) = [Sys_lstat (c_string filename)]"
    and "fst (Java_com_aoindustries_io_unix_UnixFile_getStat0 w jfilename) = [Sys_lstat (c_string filename)]"
  using assms
  by (simp_all add: Java_com_aoapps_io_posix_PosixFile_getStat0_def
      Java_com_aoindustries_io_unix_UnixFile_getStat0_def malloc_def)

lemma utime0_trace:
  assumes "getString8859_1Chars w jfilename = Inr filename" "malloc_ok w sizeof_struct_utimbuf"
  shows "fst (Java_com_aoapps_io_posix_PosixFile_utime0 w jfilename atime mtime)
     = [Sys_utime (c_string filename) (jlong_div atime 1000) (jlong_div mtime 1000)]"
  using assms
  by (simp add: Java_com_aoapps_io_posix_PosixFile_utime0_def malloc_def Let_def)

lemma readLink0_trace:
  assumes "getString8859_1Chars w jfilename = Inr filename" "malloc_ok w 4097"
  shows "fst (Java_com_aoapps_io_posix_PosixFile_readLink0 w jfilename)
     = [Sys_readlink (c_string filename) 4096]"
  using assms
  by (simp add: Java_com_aoapps_io_posix_PosixFile_readLink0_def malloc_def)

lemma getStat0_missing:
  assumes "getString8859_1Chars w jfilename = Inr filename" "malloc_ok w sizeof_struct_stat"
    and "sys_lstat w (c_string filename) = Inl errno" "errno = ENOENT \<or> errno = ENOTDIR"
  shows "snd (Java_com_aoapps_io_posix_PosixFile_getStat0 w jfilename)
     = (if \<not> FindClass_ok w ''com/aoapps/io/posix/Stat'' then Inl JVMPending
        else if \<not> GetStaticFieldID_ok w then Inl JVMPending
        else Inr NOT_EXISTS)"
  using assms
  by (simp add: Java_com_aoapps_io_posix_PosixFile_getStat0_def malloc_def)

lemma exists_stat_fields: "exists (stat_fields buff)"
  by (simp add: stat_fields_def)

lemma getStat0_Inr:
  assumes "snd (Java_com_aoapps_io_posix_PosixFile_getStat0 w jfilename) = Inr st"
  shows "st = NOT_EXISTS \<or>
    (\<exists>buff. sys_lstat w (c_string (map latin1 jfilename @ [0])) = Inr buff \<and> st = stat_fields buff)"
proof -
  from assms obtain filename where enc: "getString8859_1Chars w jfilename = Inr filename"
    by (cases "getString8859_1Chars w jfilename")
      (simp_all add: Java_com_aoapps_io_posix_PosixFile_getStat0_def)
  have f: "filename = map latin1 jfilename @ [0]"
    by (rule getString8859_1Chars_Inr [OF enc])
  from assms enc show ?thesis
    unfolding f
    by (auto simp: Java_com_aoapps_io_posix_PosixFile_getStat0_def
        split: option.splits sum.splits if_splits)
qed

lemma unix_getStat0_Inr:
  assumes "snd (Java_com_aoindustries_io_unix_UnixFile_getStat0 w jfilename) = Inr st"
  shows "st = \<lparr>exists = False, device = 0, inode = 0, mode = 0, numberLinks = 0, uid = 0,
             gid = 0, deviceIdentifier = 0, size_field = 0, blockSize = 0, blockCount = 0,
             accessTime = 0, modifyTime = 0, changeTime = 0\<rparr> \<or>
    (\<exists>buff. sys_lstat w (c_string (map latin1 jfilename @ [0])) = Inr buff \<and> st = stat_fields buff)"
proof -
  from assms obtain filename where enc: "getString8859_1Chars w jfilename = Inr filename"
    by (cases "getString8859_1Chars w jfilename")
      (simp_all add: Java_com_aoindustries_io_unix_UnixFile_getStat0_def)
  have f: "filename = map latin1 jfilename @ [0]"
    by (rule getString8859_1Chars_Inr [OF enc])
  from assms enc show ?thesis
    unfolding f
    by (auto simp: Java_com_aoindustries_io_unix_UnixFile_getStat0_def
        split: option.splits sum.splits if_splits)
qed

lemma getString8859_1Chars_sys_lstat_update:
  "getString8859_1Chars (w\<lparr>sys_lstat := f\<rparr>) s = getString8859_1Chars w s"
  by (simp add: getString8859_1Chars_def malloc_def uninit_chars_def Let_def
      JNU_ThrowOutOfMemoryError_def JNU_ThrowByName_def)

lemma getStat0_exists:
  assumes "getString8859_1Chars w jfilename = Inr filename"
    and "sys_lstat w (c_string filename) = Inr buff"
    and "snd (Java_com_aoapps_io_posix_PosixFile_getStat0 w jfilename) = Inr st"
  shows "st = stat_fields buff"
  using assms
  by (auto simp: Java_com_aoapps_io_posix_PosixFile_getStat0_def
      split: option.splits if_splits)

lemma getStat0_exists_ok:
  assumes "resources_ok w" and "sys_lstat w (c_string (map latin1 jfilename @ [0])) = Inr buff"
  shows "snd (Java_com_aoapps_io_posix_PosixFile_getStat0 w jfilename) = Inr (stat_fields buff)"
  using assms resources_encode [OF assms(1), of jfilename] resources_malloc [OF assms(1)]
  by (simp add: Java_com_aoapps_io_posix_PosixFile_getStat0_def resources_ok_def)

text \<open>
  C4. For every path for which the stat operation reaches \<^verbatim>\<open>lstat\<close> and \<^verbatim>\<open>lstat\<close> fails
  with \<open>ENOENT\<close> or with \<open>ENOTDIR\<close>: no exception class chosen by the classifier is
  thrown; when the \<open>Stat\<close> class and its static field are found the operation returns
  the \<open>NOT_EXISTS\<close> object, whose existence flag is false; any result it returns has the
  flag false; and a world answering \<open>ENOTDIR\<close> gives exactly the outcome of the world
  answering \<open>ENOENT\<close>.
\<close>

theorem getStat0_missing_path:
  assumes "getString8859_1Chars w jfilename = Inr filename"
    and "malloc_ok w sizeof_struct_stat"
    and "sys_lstat w (c_string filename) = Inl errno"
    and "errno = ENOENT \<or> errno = ENOTDIR"
  shows "(\<forall>cls. snd (Java_com_aoapps_io_posix_PosixFile_getStat0 w jfilename) \<noteq> Inl (Thrown cls)) \<and>
         (FindClass_ok w ''com/aoapps/io/posix/Stat'' \<and> GetStaticFieldID_ok w \<longrightarrow>
            snd (Java_com_aoapps_io_posix_PosixFile_getStat0 w jfilename) = Inr NOT_EXISTS) \<and>
         (\<forall>st. snd (Java_com_aoapps_io_posix_PosixFile_getStat0 w jfilename) = Inr st
            \<longrightarrow> \<not> exists st) \<and>
         Java_com_aoapps_io_posix_PosixFile_getStat0 (w\<lparr>sys_lstat := \<lambda>path. Inl ENOTDIR\<rparr>) jfilename
           = Java_com_aoapps_io_posix_PosixFile_getStat0 (w\<lparr>sys_lstat := \<lambda>path. Inl ENOENT\<rparr>) jfilename"
proof -
  note r = getStat0_missing [OF assms]
  have "Java_com_aoapps_io_posix_PosixFile_getStat0 (w\<lparr>sys_lstat := \<lambda>path. Inl ENOTDIR\<rparr>) jfilename
           = Java_com_aoapps_io_posix_PosixFile_getStat0 (w\<lparr>sys_lstat := \<lambda>path. Inl ENOENT\<rparr>) jfilename"
    by (simp add: Java_com_aoapps_io_posix_PosixFile_getStat0_def
        getString8859_1Chars_sys_lstat_update malloc_def uninit_chars_def errno_defs
        throw_errno_def split: sum.splits)
  moreover have "\<not> exists NOT_EXISTS" by (simp add: NOT_EXISTS_def)
  ultimately show ?thesis using r by auto
qed

theorem getStat0_missing_path_witness:
  "getString8859_1Chars quiet_world [0x2f, 0x78] = Inr [0x2f, 0x78, 0] \<and>
   malloc_ok quiet_world sizeof_struct_stat \<and>
   sys_lstat quiet_world (c_string [0x2f, 0x78, 0]) = Inl ENOENT \<and>
   (ENOENT = ENOENT \<or> ENOENT = ENOTDIR) \<and>
   snd (Java_com_aoapps_io_posix_PosixFile_getStat0 quiet_world [0x2f, 0x78]) = Inr NOT_EXISTS \<and>
   \<not> exists NOT_EXISTS"
proof -
  have enc: "getString8859_1Chars quiet_world [0x2f, 0x78] = Inr [0x2f, 0x78, 0]"
    using resources_encode [OF resources_ok_quiet_world, of "[0x2f, 0x78]"] by simp
  have m: "malloc_ok quiet_world sizeof_struct_stat"
    by (simp add: quiet_world_def)
  have l: "sys_lstat quiet_world (c_string [0x2f, 0x78, 0]) = Inl ENOENT"
    by (simp add: quiet_world_def)
  have e: "ENOENT = ENOENT \<or> ENOENT = ENOTDIR" by simp
  have j: "FindClass_ok quiet_world ''com/aoapps/io/posix/Stat'' \<and> GetStaticFieldID_ok quiet_world"
    by (simp add: quiet_world_def)
  from getStat0_missing_path [OF enc m l e] j
  have "snd (Java_com_aoapps_io_posix_PosixFile_getStat0 quiet_world [0x2f, 0x78]) = Inr NOT_EXISTS"
    by blast
  moreover have "\<not> exists NOT_EXISTS" by (simp add: NOT_EXISTS_def)
  ultimately show ?thesis using enc m l by simp
qed

text \<open>
  C5. For every result returned by the stat operation, of the newer or of the older
  generation, if the existence flag is false then device, inode, mode, link count, uid,
  gid, device identifier, size, block size, block count and the three timestamps are
  zero. The older generation passes literal zeros; the newer one returns \<open>NOT_EXISTS\<close>.
\<close>

theorem getStat0_not_exists_zero:
  assumes "snd (Java_com_aoapps_io_posix_PosixFile_getStat0 w jfilename) = Inr st \<or>
           snd (Java_com_aoindustries_io_unix_UnixFile_getStat0 w jfilename) = Inr st"
    and "\<not> exists st"
  shows "device st = 0 \<and> inode st = 0 \<and> mode st = 0 \<and> numberLinks st = 0 \<and> uid st = 0 \<and>
         gid st = 0 \<and> deviceIdentifier st = 0 \<and> size_field st = 0 \<and> blockSize st = 0 \<and>
         blockCount st = 0 \<and> accessTime st = 0 \<and> modifyTime st = 0 \<and> changeTime st = 0"
  using assms getStat0_Inr [of w jfilename st] unix_getStat0_Inr [of w jfilename st]
    exists_stat_fields
  by (auto simp: NOT_EXISTS_def)

theorem getStat0_not_exists_zero_witness:
  "(snd (Java_com_aoapps_io_posix_PosixFile_getStat0 quiet_world [0x2f, 0x78]) = Inr NOT_EXISTS \<or>
    snd (Java_com_aoindustries_io_unix_UnixFile_getStat0 quiet_world [0x2f, 0x78]) = Inr NOT_EXISTS) \<and>
   snd (Java_com_aoindustries_io_unix_UnixFile_getStat0 quiet_world [0x2f, 0x78]) = Inr NOT_EXISTS \<and>
   \<not> exists NOT_EXISTS \<and>
   device NOT_EXISTS = 0 \<and> inode NOT_EXISTS = 0 \<and> mode NOT_EXISTS = 0 \<and>
   numberLinks NOT_EXISTS = 0 \<and> uid NOT_EXISTS = 0 \<and> gid NOT_EXISTS = 0 \<and>
   deviceIdentifier NOT_EXISTS = 0 \<and> size_field NOT_EXISTS = 0 \<and> blockSize NOT_EXISTS = 0 \<and>
   blockCount NOT_EXISTS = 0 \<and> accessTime NOT_EXISTS = 0 \<and> modifyTime NOT_EXISTS = 0 \<and>
   changeTime NOT_EXISTS = 0"
proof -
  have u: "snd (Java_com_aoindustries_io_unix_UnixFile_getStat0 quiet_world [0x2f, 0x78])
      = Inr NOT_EXISTS"
    using resources_encode [OF resources_ok_quiet_world, of "[0x2f, 0x78]"]
      resources_malloc [OF resources_ok_quiet_world]
    by (simp add: Java_com_aoindustries_io_unix_UnixFile_getStat0_def quiet_world_def
        NOT_EXISTS_def)
  then have h: "snd (Java_com_aoapps_io_posix_PosixFile_getStat0 quiet_world [0x2f, 0x78])
        = Inr NOT_EXISTS \<or>
      snd (Java_com_aoindustries_io_unix_UnixFile_getStat0 quiet_world [0x2f, 0x78]) = Inr NOT_EXISTS"
    by simp
  have n: "\<not> exists NOT_EXISTS"
    by (simp add: NOT_EXISTS_def)
  from getStat0_not_exists_zero [OF h n] u h n show ?thesis by blast
qed

section \<open>Timestamps\<close>

lemma sdiv_1000_eq:
  fixes k :: int
  shows "k sdiv 1000 = (if 0 \<le> k then k div 1000 else - ((- k) div 1000))"
  by (simp add: signed_divide_int_def sgn_if)

lemma sdiv_1000_range:
  fixes k :: int
  assumes "- (2 ^ 63) \<le> k" "k < 2 ^ 63"
  shows "- (2 ^ 63) \<le> k sdiv 1000" "k sdiv 1000 < 2 ^ 63"
    "- (2 ^ 63) \<le> k sdiv 1000 * 1000" "k sdiv 1000 * 1000 < 2 ^ 63"
  using assms unfolding sdiv_1000_eq by (auto split: if_splits)

lemma sint_jlong_div_1000: "sint (jlong_div a 1000) = sint a sdiv 1000"
proof -
  have "- (2 ^ 63) \<le> sint a" "sint a < 2 ^ 63"
    using sint_ge [of a] sint_lt [of a] by simp_all
  then have "- (2 ^ 63) \<le> sint a sdiv 1000" "sint a sdiv 1000 < 2 ^ 63"
    by (rule sdiv_1000_range)+
  then have "signed_take_bit 63 (sint a sdiv 1000) = sint a sdiv 1000"
    by (rule signed_take_bit_int_eq_self)
  then show ?thesis
    by (simp add: jlong_div_def sint_sbintrunc')
qed

lemma sint_seconds_to_millis:
  "sint (jlong_div a 1000 * 1000) = sint a sdiv 1000 * 1000"
proof -
  have "- (2 ^ 63) \<le> sint a" "sint a < 2 ^ 63"
    using sint_ge [of a] sint_lt [of a] by simp_all
  then have "- (2 ^ 63) \<le> sint a sdiv 1000 * 1000" "sint a sdiv 1000 * 1000 < 2 ^ 63"
    by (rule sdiv_1000_range)+
  then have "signed_take_bit 63 (sint a sdiv 1000 * 1000) = sint a sdiv 1000 * 1000"
    by (rule signed_take_bit_int_eq_self)
  then show ?thesis
    by (simp add: sint_word_mult sint_jlong_div_1000)
qed

lemma utime0_success:
  assumes "getString8859_1Chars w jfilename = Inr filename"
    and "malloc_ok w sizeof_struct_utimbuf"
    and "sys_utime w (c_string filename) (jlong_div atime 1000) (jlong_div mtime 1000) = None"
  shows "Java_com_aoapps_io_posix_PosixFile_utime0 w jfilename atime mtime
     = ([Sys_utime (c_string filename) (jlong_div atime 1000) (jlong_div mtime 1000)], Inr ())"
  using assms
  by (simp add: Java_com_aoapps_io_posix_PosixFile_utime0_def malloc_def Let_def)

lemma getStat0_success:
  assumes "getString8859_1Chars w jfilename = Inr filename"
    and "malloc_ok w sizeof_struct_stat"
    and "sys_lstat w (c_string filename) = Inr buff"
    and "FindClass_ok w ''com/aoapps/io/posix/Stat''" "GetMethodID_ok w" "NewObject_ok w"
  shows "Java_com_aoapps_io_posix_PosixFile_getStat0 w jfilename
     = ([Sys_lstat (c_string filename)], Inr (stat_fields buff))"
  using assms
  by (simp add: Java_com_aoapps_io_posix_PosixFile_getStat0_def malloc_def)

lemma resources_ok_storing_world: "resources_ok (storing_world a m)"
  by (simp add: resources_ok_def storing_world_def quiet_world_def)

lemma resources_ok_clamping_world: "resources_ok clamping_world"
  by (simp add: resources_ok_def clamping_world_def quiet_world_def)

text \<open>
  C6, as stated, fails: what a later stat reads back is what the file system stored,
  not what the operation passed. On a file system that keeps time stamps within a
  limited range, setting the times (\<open>2^63 - 1\<close>, \<open>-2^63\<close>) milliseconds succeeds, the call
  receives 9223372036854775 and -9223372036854775 seconds, and the read-back is
  (15032385535000, -2147483648000), not the inputs with their sub-second part discarded.
\<close>

theorem utime0_readback_counterexample:
  "Java_com_aoapps_io_posix_PosixFile_utime0 clamping_world [0x2f, 0x78]
       9223372036854775807 (- 9223372036854775808)
     = ([Sys_utime [0x2f, 0x78] 9223372036854775 (- 9223372036854775)], Inr ()) \<and>
   Java_com_aoapps_io_posix_PosixFile_getStat0 clamping_world [0x2f, 0x78]
     = ([Sys_lstat [0x2f, 0x78]], Inr (stat_fields (stat_at 15032385535 (- 2147483648)))) \<and>
   sint (accessTime (stat_fields (stat_at 15032385535 (- 2147483648)))) = 15032385535000 \<and>
   sint (modifyTime (stat_fields (stat_at 15032385535 (- 2147483648)))) = - 2147483648000 \<and>
   sint (9223372036854775807 :: jlong) sdiv 1000 * 1000 = 9223372036854775000 \<and>
   sint (- 9223372036854775808 :: jlong) sdiv 1000 * 1000 = - 9223372036854775000"
proof -
  have enc: "getString8859_1Chars clamping_world [0x2f, 0x78] = Inr [0x2f, 0x78, 0]"
    using resources_encode [OF resources_ok_clamping_world, of "[0x2f, 0x78]"] by simp
  have c: "c_string [0x2f, 0x78, 0] = [0x2f, 0x78]"
    by (simp add: c_string_def)
  have d: "jlong_div 9223372036854775807 1000 = 9223372036854775"
    "jlong_div (- 9223372036854775808) 1000 = - 9223372036854775"
    by (simp_all add: jlong_div_def signed_divide_int_def)
  have u: "Java_com_aoapps_io_posix_PosixFile_utime0 clamping_world [0x2f, 0x78]
       9223372036854775807 (- 9223372036854775808)
     = ([Sys_utime [0x2f, 0x78] 9223372036854775 (- 9223372036854775)], Inr ())"
    using utime0_success [OF enc, of 9223372036854775807 "- 9223372036854775808"]
    by (simp add: c d clamping_world_def quiet_world_def)
  have g: "Java_com_aoapps_io_posix_PosixFile_getStat0 clamping_world [0x2f, 0x78]
     = ([Sys_lstat [0x2f, 0x78]], Inr (stat_fields (stat_at 15032385535 (- 2147483648))))"
    using getStat0_success [OF enc, of "stat_at 15032385535 (- 2147483648)"]
    by (simp add: c clamping_world_def quiet_world_def)
  have t: "sint (accessTime (stat_fields (stat_at 15032385535 (- 2147483648)))) = 15032385535000"
    "sint (modifyTime (stat_fields (stat_at 15032385535 (- 2147483648)))) = - 2147483648000"
    by (simp_all add: stat_fields_def stat_at_def)
  have a: "sint (9223372036854775807 :: jlong) sdiv 1000 * 1000 = 9223372036854775000"
    "sint (- 9223372036854775808 :: jlong) sdiv 1000 * 1000 = - 9223372036854775000"
    by (simp_all add: signed_divide_int_def)
  from u g t a show ?thesis by (intro conjI)
qed

text \<open>
  C6, amended. For every pair of millisecond inputs, the set-timestamps operation
  passes \<open>atime/1000\<close> and \<open>mtime/1000\<close>, truncated towards zero, to \<^verbatim>\<open>utime\<close>; when that call
  succeeds and the file system has stored these seconds unchanged, so that the
  subsequent \<^verbatim>\<open>lstat\<close> in the same world reports them, the stat read-back multiplies them
  by 1000 without overflow and reports each timestamp with its sub-second part
  discarded. In the witness the inputs (1700000000123, 1700000000456) are set and read
  back in one world as (1700000000000, 1700000000000).
\<close>

theorem utime0_whole_seconds:
  assumes "getString8859_1Chars w jfilename = Inr filename"
    and "malloc_ok w sizeof_struct_utimbuf"
    and "sys_utime w (c_string filename) (jlong_div atime 1000) (jlong_div mtime 1000) = None"
    and "sys_lstat w (c_string filename) = Inr buff"
    and "st_atime buff = jlong_div atime 1000"
    and "st_mtime buff = jlong_div mtime 1000"
  shows "Java_com_aoapps_io_posix_PosixFile_utime0 w jfilename atime mtime
           = ([Sys_utime (c_string filename) (jlong_div atime 1000) (jlong_div mtime 1000)],
              Inr ()) \<and>
         sint (jlong_div atime 1000) = sint atime sdiv 1000 \<and>
         sint (jlong_div mtime 1000) = sint mtime sdiv 1000 \<and>
         (malloc_ok w sizeof_struct_stat \<and> FindClass_ok w ''com/aoapps/io/posix/Stat'' \<and>
          GetMethodID_ok w \<and> NewObject_ok w \<longrightarrow>
            Java_com_aoapps_io_posix_PosixFile_getStat0 w jfilename
              = ([Sys_lstat (c_string filename)], Inr (stat_fields buff))) \<and>
         (\<forall>st. snd (Java_com_aoapps_io_posix_PosixFile_getStat0 w jfilename) = Inr st \<longrightarrow>
            st = stat_fields buff) \<and>
         sint (accessTime (stat_fields buff)) = sint atime sdiv 1000 * 1000 \<and>
         sint (modifyTime (stat_fields buff)) = sint mtime sdiv 1000 * 1000 \<and>
         sint (accessTime (stat_fields buff)) = sint atime - sint atime smod 1000 \<and>
         sint (modifyTime (stat_fields buff)) = sint mtime - sint mtime smod 1000"
proof -
  have times: "accessTime (stat_fields buff) = jlong_div atime 1000 * 1000"
    "modifyTime (stat_fields buff) = jlong_div mtime 1000 * 1000"
    using assms(5,6) by (simp_all add: stat_fields_def)
  have readback: "sint (accessTime (stat_fields buff)) = sint atime sdiv 1000 * 1000"
    "sint (modifyTime (stat_fields buff)) = sint mtime sdiv 1000 * 1000"
    "sint (accessTime (stat_fields buff)) = sint atime - sint atime smod 1000"
    "sint (modifyTime (stat_fields buff)) = sint mtime - sint mtime smod 1000"
    by (simp_all add: times sint_seconds_to_millis minus_smod_eq_sdiv_mult)
  have only: "\<forall>st. snd (Java_com_aoapps_io_posix_PosixFile_getStat0 w jfilename) = Inr st \<longrightarrow>
      st = stat_fields buff"
    using getStat0_exists [OF assms(1,4)] by blast
  have full: "malloc_ok w sizeof_struct_stat \<and> FindClass_ok w ''com/aoapps/io/posix/Stat'' \<and>
      GetMethodID_ok w \<and> NewObject_ok w \<longrightarrow>
        Java_com_aoapps_io_posix_PosixFile_getStat0 w jfilename
          = ([Sys_lstat (c_string filename)], Inr (stat_fields buff))"
    using getStat0_success [OF assms(1) _ assms(4)] by blast
  from utime0_success [OF assms(1-3)] sint_jlong_div_1000 [of atime] sint_jlong_div_1000 [of mtime]
    full only readback
  show ?thesis by (intro conjI)
qed

theorem utime0_whole_seconds_witness:
  "getString8859_1Chars (storing_world 1700000000 1700000000) [0x2f, 0x78] = Inr [0x2f, 0x78, 0] \<and>
   malloc_ok (storing_world 1700000000 1700000000) sizeof_struct_utimbuf \<and>
   sys_utime (storing_world 1700000000 1700000000) [0x2f, 0x78] 1700000000 1700000000 = None \<and>
   sys_lstat (storing_world 1700000000 1700000000) [0x2f, 0x78]
     = Inr (stat_at 1700000000 1700000000) \<and>
   Java_com_aoapps_io_posix_PosixFile_utime0 (storing_world 1700000000 1700000000) [0x2f, 0x78]
       1700000000123 1700000000456
     = ([Sys_utime [0x2f, 0x78] 1700000000 1700000000], Inr ()) \<and>
   Java_com_aoapps_io_posix_PosixFile_getStat0 (storing_world 1700000000 1700000000) [0x2f, 0x78]
     = ([Sys_lstat [0x2f, 0x78]], Inr (stat_fields (stat_at 1700000000 1700000000))) \<and>
   sint (accessTime (stat_fields (stat_at 1700000000 1700000000))) = 1700000000000 \<and>
   sint (modifyTime (stat_fields (stat_at 1700000000 1700000000))) = 1700000000000"
proof -
  let ?w = "storing_world 1700000000 1700000000"
  have enc: "getString8859_1Chars ?w [0x2f, 0x78] = Inr [0x2f, 0x78, 0]"
    using resources_encode [OF resources_ok_storing_world, of 1700000000 1700000000 "[0x2f, 0x78]"]
    by simp
  have c: "c_string [0x2f, 0x78, 0] = [0x2f, 0x78]"
    by (simp add: c_string_def)
  have d: "jlong_div 1700000000123 1000 = 1700000000" "jlong_div 1700000000456 1000 = 1700000000"
    by (simp_all add: jlong_div_def signed_divide_int_def)
  have m: "malloc_ok ?w sizeof_struct_utimbuf"
    by (simp add: storing_world_def quiet_world_def)
  have u: "sys_utime ?w (c_string [0x2f, 0x78, 0]) (jlong_div 1700000000123 1000)
      (jlong_div 1700000000456 1000) = None"
    by (simp add: storing_world_def)
  have l: "sys_lstat ?w (c_string [0x2f, 0x78, 0]) = Inr (stat_at 1700000000 1700000000)"
    by (simp add: storing_world_def)
  have a: "st_atime (stat_at 1700000000 1700000000) = jlong_div 1700000000123 1000"
    and b: "st_mtime (stat_at 1700000000 1700000000) = jlong_div 1700000000456 1000"
    by (simp_all add: d stat_at_def)
  have j: "malloc_ok ?w sizeof_struct_stat \<and> FindClass_ok ?w ''com/aoapps/io/posix/Stat'' \<and>
      GetMethodID_ok ?w \<and> NewObject_ok ?w"
    by (simp add: storing_world_def quiet_world_def)
  note th = utime0_whole_seconds [OF enc m u l a b]
  from th j have
    "Java_com_aoapps_io_posix_PosixFile_utime0 ?w [0x2f, 0x78] 1700000000123 1700000000456
       = ([Sys_utime (c_string [0x2f, 0x78, 0]) (jlong_div 1700000000123 1000)
            (jlong_div 1700000000456 1000)], Inr ())"
    and "Java_com_aoapps_io_posix_PosixFile_getStat0 ?w [0x2f, 0x78]
       = ([Sys_lstat (c_string [0x2f, 0x78, 0])], Inr (stat_fields (stat_at 1700000000 1700000000)))"
    and "sint (accessTime (stat_fields (stat_at 1700000000 1700000000)))
       = sint (1700000000123 :: jlong) sdiv 1000 * 1000"
    and "sint (modifyTime (stat_fields (stat_at 1700000000 1700000000)))
       = sint (1700000000456 :: jlong) sdiv 1000 * 1000"
    by blast+
  then have
    "Java_com_aoapps_io_posix_PosixFile_utime0 ?w [0x2f, 0x78] 1700000000123 1700000000456
       = ([Sys_utime [0x2f, 0x78] 1700000000 1700000000], Inr ())"
    and "Java_com_aoapps_io_posix_PosixFile_getStat0 ?w [0x2f, 0x78]
       = ([Sys_lstat [0x2f, 0x78]], Inr (stat_fields (stat_at 1700000000 1700000000)))"
    and "sint (accessTime (stat_fields (stat_at 1700000000 1700000000))) = 1700000000000"
    and "sint (modifyTime (stat_fields (stat_at 1700000000 1700000000))) = 1700000000000"
    by (simp_all add: c d signed_divide_int_def)
  moreover from u l have "sys_utime ?w [0x2f, 0x78] 1700000000 1700000000 = None"
    and "sys_lstat ?w [0x2f, 0x78] = Inr (stat_at 1700000000 1700000000)"
    by (simp_all add: c d)
  ultimately show ?thesis using enc m by (intro conjI)
qed

section \<open>Reading a symbolic link\<close>

lemma readlink_Inr:
  assumes "sys_readlink w path = Inr contents"
  shows "readlink w path buffer bufsiz
    = (take bufsiz contents @ drop (min bufsiz (length contents)) buffer,
       Inr (min bufsiz (length contents)))"
  using assms by (simp add: readlink_def min.commute)

lemma terminate_after_prefix:
  assumes "length written < length buffer"
  shows "(written @ drop (length written) buffer)[length written := 0]
    = written @ 0 # drop (Suc (length written)) buffer"
proof -
  from assms have "drop (length written) buffer
      = buffer ! length written # drop (Suc (length written)) buffer"
    by (simp add: Cons_nth_drop_Suc)
  then show ?thesis
    by (simp add: list_update_append)
qed

lemma c_string_terminated: "0 \<notin> set xs \<Longrightarrow> c_string (xs @ 0 # ys) = xs"
  unfolding c_string_def by (induction xs) auto

lemma readLink0_contents:
  assumes ok: "resources_ok w"
    and rl: "sys_readlink w (c_string (map latin1 jfilename @ [0])) = Inr contents"
    and nul: "0 \<notin> set contents"
  shows "Java_com_aoapps_io_posix_PosixFile_readLink0 w jfilename
    = ([Sys_readlink (c_string (map latin1 jfilename @ [0])) 4096],
       Inr (map ucast (take 4096 contents)))"
proof -
  let ?written = "take 4096 contents"
  let ?mem = "uninit_chars w 4097"
  let ?n = "min (length contents) 4096"
  have n: "length ?written = ?n"
    by simp
  have lt: "length ?written < length ?mem"
    by simp
  have nul': "0 \<notin> set ?written"
    using nul by (auto dest: in_set_takeD)
  have terminated: "(?written @ drop ?n ?mem)[?n := 0] = ?written @ 0 # drop (Suc ?n) ?mem"
    using terminate_after_prefix [OF lt] unfolding n .
  have dec: "newString8859_1 w (?written @ 0 # drop (Suc ?n) ?mem) = Inr (map ucast ?written)"
  proof -
    have "newString8859_1 w (?written @ 0 # drop (Suc ?n) ?mem)
        = Inr (map ucast (c_string (?written @ 0 # drop (Suc ?n) ?mem)))"
      using ok by (intro newString8859_1_ok) (simp_all add: resources_ok_def)
    then show ?thesis
      by (simp only: c_string_terminated [OF nul'])
  qed
  show ?thesis
    unfolding Java_com_aoapps_io_posix_PosixFile_readLink0_def
    by (simp add: resources_encode [OF ok] resources_malloc [OF ok] readlink_def rl
        terminated dec)
qed

text \<open>
  C7. For every path, when the JNI calls and allocations succeed and \<^verbatim>\<open>readlink\<close>
  succeeds on a link whose contents hold no zero byte: the buffer is a 4097-byte
  allocation and the call is bounded by 4096; the call stores the first
  \<open>charCount = min 4096 (length contents)\<close> bytes; the terminator is stored at index
  \<open>charCount\<close>; and the operation returns exactly those \<open>charCount\<close> bytes as characters,
  never more than 4096, so longer contents are cut at 4096 and no error is signalled.
\<close>

theorem readLink0_bounded:
  assumes "resources_ok w"
    and "sys_readlink w (c_string (map latin1 jfilename @ [0])) = Inr contents"
    and "0 \<notin> set contents"
  shows "malloc w 4097 = Some (uninit_chars w 4097) \<and> length (uninit_chars w 4097) = 4097 \<and>
         readlink w (c_string (map latin1 jfilename @ [0])) (uninit_chars w 4097) 4096
           = (take 4096 contents @ drop (min 4096 (length contents)) (uninit_chars w 4097),
              Inr (min 4096 (length contents))) \<and>
         (take 4096 contents @ drop (min 4096 (length contents)) (uninit_chars w 4097))
             [min 4096 (length contents) := 0]
           = take 4096 contents @ 0 # drop (Suc (min 4096 (length contents))) (uninit_chars w 4097) \<and>
         Java_com_aoapps_io_posix_PosixFile_readLink0 w jfilename
           = ([Sys_readlink (c_string (map latin1 jfilename @ [0])) 4096],
              Inr (map ucast (take 4096 contents))) \<and>
         length (map ucast (take 4096 contents) :: jstring) = min 4096 (length contents) \<and>
         min 4096 (length contents) \<le> 4096"
proof -
  have lt: "length (take 4096 contents) < length (uninit_chars w 4097)"
    by simp
  have n: "length (take 4096 contents) = min 4096 (length contents)"
    by (simp add: min.commute)
  have "(take 4096 contents @ drop (min 4096 (length contents)) (uninit_chars w 4097))
             [min 4096 (length contents) := 0]
           = take 4096 contents @ 0 # drop (Suc (min 4096 (length contents))) (uninit_chars w 4097)"
    using terminate_after_prefix [OF lt] unfolding n .
  moreover note resources_malloc [OF assms(1), of 4097] readlink_Inr [OF assms(2)]
    readLink0_contents [OF assms]
  moreover have "length (map ucast (take 4096 contents) :: jstring) = min 4096 (length contents)"
    by (simp add: min.commute)
  ultimately show ?thesis by simp
qed

theorem readLink0_bounded_witness:
  "resources_ok (quiet_world\<lparr>sys_readlink := \<lambda>path. Inr (replicate 5000 0x61)\<rparr>) \<and>
   sys_readlink (quiet_world\<lparr>sys_readlink := \<lambda>path. Inr (replicate 5000 0x61)\<rparr>)
     (c_string (map latin1 [0x2f, 0x78] @ [0])) = Inr (replicate 5000 0x61) \<and>
   0 \<notin> set (replicate 5000 (0x61 :: c_char)) \<and>
   Java_com_aoapps_io_posix_PosixFile_readLink0
       (quiet_world\<lparr>sys_readlink := \<lambda>path. Inr (replicate 5000 0x61)\<rparr>) [0x2f, 0x78]
     = ([Sys_readlink [0x2f, 0x78] 4096], Inr (replicate 4096 0x61))"
proof -
  let ?w = "quiet_world\<lparr>sys_readlink := \<lambda>path. Inr (replicate 5000 0x61)\<rparr>"
  have ok: "resources_ok ?w"
    by (simp add: resources_ok_def quiet_world_def)
  have rl: "sys_readlink ?w (c_string (map latin1 [0x2f, 0x78] @ [0])) = Inr (replicate 5000 0x61)"
    by simp
  have nul: "0 \<notin> set (replicate 5000 (0x61 :: c_char))"
    by simp
  from readLink0_bounded [OF ok rl nul]
  have "Java_com_aoapps_io_posix_PosixFile_readLink0 ?w [0x2f, 0x78]
      = ([Sys_readlink (c_string (map latin1 [0x2f, 0x78] @ [0])) 4096],
         Inr (map ucast (take 4096 (replicate 5000 (0x61 :: c_char)))))"
    by blast
  then have "Java_com_aoapps_io_posix_PosixFile_readLink0 ?w [0x2f, 0x78]
      = ([Sys_readlink [0x2f, 0x78] 4096], Inr (replicate 4096 0x61))"
    by (simp add: c_string_def)
  with ok rl nul show ?thesis by blast
qed

section \<open>Entropy injection\<close>

lemma addEntropy0_loop_eq:
  "c + length body \<le> length buffer \<Longrightarrow>
   addEntropy0_loop body c buffer = take c buffer @ body @ drop (c + length body) buffer"
proof (induction body arbitrary: c buffer)
  case Nil
  then show ?case by simp
next
  case (Cons b body)
  have "addEntropy0_loop (b # body) c buffer = addEntropy0_loop body (Suc c) (buffer[c := b])"
    by simp
  also have "\<dots> = take (Suc c) (buffer[c := b]) @ body
      @ drop (Suc c + length body) (buffer[c := b])"
    using Cons.prems by (intro Cons.IH) simp
  also have "take (Suc c) (buffer[c := b]) = take c buffer @ [b]"
    using Cons.prems by (simp add: take_Suc_conv_app_nth)
  also have "drop (Suc c + length body) (buffer[c := b]) = drop (c + length (b # body)) buffer"
    by simp
  finally show ?case by simp
qed

lemma addEntropy0_trace:
  assumes "malloc_ok w (sizeof_struct_rand_pool_info + length randomData)"
    and "GetByteArrayElements_ok w"
    and "sys_open w (c_chars ''/dev/random'') = Inr fdout"
    and "0 <s fdout"
  shows "fst (Java_com_aoapps_io_posix_linux_DevRandom_addEntropy0 w randomData)
    = [Sys_open (c_chars ''/dev/random''),
       Sys_ioctl_RNDADDENTROPY fdout
         \<lparr>entropy_count = push_bit 3 (of_nat (length randomData)),
          buf_size = of_nat (length randomData), buf = randomData\<rparr>,
       Sys_close fdout]"
proof -
  have "addEntropy0_loop randomData 0
      (drop sizeof_struct_rand_pool_info
         (uninit_chars w (sizeof_struct_rand_pool_info + length randomData))) = randomData"
    by (simp add: addEntropy0_loop_eq)
  with assms show ?thesis
    by (simp add: Java_com_aoapps_io_posix_linux_DevRandom_addEntropy0_def malloc_def Let_def)
qed

lemma sint_entropy_count:
  assumes "n < 2 ^ 28"
  shows "sint (push_bit 3 (of_nat n :: c_int)) = 8 * int n"
    and "sint (of_nat n :: c_int) = int n"
proof -
  have "push_bit 3 (of_nat n :: c_int) = word_of_int (8 * int n)"
    by (simp add: push_bit_eq_mult)
  moreover have "signed_take_bit 31 (8 * int n) = 8 * int n"
    using assms by (intro signed_take_bit_int_eq_self) simp_all
  ultimately show "sint (push_bit 3 (of_nat n :: c_int)) = 8 * int n"
    by (simp only: sint_sbintrunc') simp
  have "signed_take_bit 31 (int n) = int n"
    using assms by (intro signed_take_bit_int_eq_self) simp_all
  moreover have "(of_nat n :: c_int) = word_of_int (int n)" by simp
  ultimately show "sint (of_nat n :: c_int) = int n"
    by (simp only: sint_sbintrunc') simp
qed

lemma uint_entropy_count:
  "uint (push_bit 3 (of_nat n :: c_int)) = (8 * int n) mod 2 ^ 32"
proof -
  have "push_bit 3 (of_nat n :: c_int) = word_of_int (8 * int n)"
    by (simp add: push_bit_eq_mult)
  then show ?thesis
    by (simp only: uint_word_of_int) simp
qed

text \<open>
  C8, as stated, fails: for a buffer of \<open>2^28\<close> bytes the 32-bit field \<open>entropy_count\<close>
  holds \<open>-2^31\<close>, not the bit length \<open>2^31\<close> of the buffer.
\<close>

theorem addEntropy0_credit_counterexample:
  "fst (Java_com_aoapps_io_posix_linux_DevRandom_addEntropy0 quiet_world (replicate 268435456 0))
     = [Sys_open (c_chars ''/dev/random''),
        Sys_ioctl_RNDADDENTROPY 3
          \<lparr>entropy_count = 0x80000000, buf_size = 268435456, buf = replicate 268435456 0\<rparr>,
        Sys_close 3] \<and>
   sint (0x80000000 :: c_int) = - 2147483648 \<and>
   8 * int (length (replicate 268435456 (0 :: jbyte))) = 2147483648"
proof -
  have "fst (Java_com_aoapps_io_posix_linux_DevRandom_addEntropy0 quiet_world (replicate 268435456 0))
     = [Sys_open (c_chars ''/dev/random''),
        Sys_ioctl_RNDADDENTROPY 3
          \<lparr>entropy_count = push_bit 3 (of_nat (length (replicate 268435456 (0 :: jbyte)))),
           buf_size = of_nat (length (replicate 268435456 (0 :: jbyte))),
           buf = replicate 268435456 0\<rparr>,
        Sys_close 3]"
    by (rule addEntropy0_trace) (simp_all add: quiet_world_def word_sless_alt)
  then show ?thesis by simp
qed

text \<open>
  C8, amended. For every supplied byte buffer of length \<open>len < 2^28\<close>, when the
  allocation and the array access succeed and the device opens with a positive
  descriptor, the operation submits one control request whose entropy credit, read as a
  signed 32-bit value, is \<open>8 * len\<close>, whose size field is \<open>len\<close> and whose payload is the
  buffer itself, between opening and closing the device.
\<close>

theorem addEntropy0_credit:
  assumes "malloc_ok w (sizeof_struct_rand_pool_info + length randomData)"
    and "GetByteArrayElements_ok w"
    and "sys_open w (c_chars ''/dev/random'') = Inr fdout"
    and "0 <s fdout"
    and "length randomData < 2 ^ 28"
  shows "fst (Java_com_aoapps_io_posix_linux_DevRandom_addEntropy0 w randomData)
           = [Sys_open (c_chars ''/dev/random''),
              Sys_ioctl_RNDADDENTROPY fdout
                \<lparr>entropy_count = push_bit 3 (of_nat (length randomData)),
                 buf_size = of_nat (length randomData), buf = randomData\<rparr>,
              Sys_close fdout] \<and>
         sint (push_bit 3 (of_nat (length randomData)) :: c_int) = 8 * int (length randomData) \<and>
         sint (of_nat (length randomData) :: c_int) = int (length randomData)"
  using addEntropy0_trace [OF assms(1-4)] sint_entropy_count [OF assms(5)]
  by (intro conjI)

theorem addEntropy0_credit_witness:
  "malloc_ok quiet_world (sizeof_struct_rand_pool_info + length [1, 2, 3 :: jbyte]) \<and>
   GetByteArrayElements_ok quiet_world \<and>
   sys_open quiet_world (c_chars ''/dev/random'') = Inr 3 \<and>
   0 <s (3 :: c_int) \<and>
   length [1, 2, 3 :: jbyte] < 2 ^ 28 \<and>
   fst (Java_com_aoapps_io_posix_linux_DevRandom_addEntropy0 quiet_world [1, 2, 3])
     = [Sys_open (c_chars ''/dev/random''),
        Sys_ioctl_RNDADDENTROPY 3 \<lparr>entropy_count = 24, buf_size = 3, buf = [1, 2, 3]\<rparr>,
        Sys_close 3] \<and>
   sint (24 :: c_int) = 8 * int (length [1, 2, 3 :: jbyte])"
proof -
  have m: "malloc_ok quiet_world (sizeof_struct_rand_pool_info + length [1, 2, 3 :: jbyte])"
    and g: "GetByteArrayElements_ok quiet_world"
    and p: "sys_open quiet_world (c_chars ''/dev/random'') = Inr 3"
    by (simp_all add: quiet_world_def)
  have f: "0 <s (3 :: c_int)"
    by (simp add: word_sless_alt)
  have l: "length [1, 2, 3 :: jbyte] < 2 ^ 28"
    by simp
  from addEntropy0_credit [OF m g p f l]
  have "fst (Java_com_aoapps_io_posix_linux_DevRandom_addEntropy0 quiet_world [1, 2, 3])
     = [Sys_open (c_chars ''/dev/random''),
        Sys_ioctl_RNDADDENTROPY 3 \<lparr>entropy_count = 24, buf_size = 3, buf = [1, 2, 3]\<rparr>,
        Sys_close 3]"
    by simp
  with m g p f l show ?thesis by simp
qed

section \<open>The lossy encoding\<close>

text \<open>
  C9. For every input string, when the string can be pinned and the allocation of
  \<open>length + 1\<close> bytes succeeds, encode returns the buffer that holds, for each code unit
  at most 255, the byte of the same value and, for each code unit above 255, the byte
  \<open>?\<close>, followed by a zero byte: \<open>length + 1\<close> bytes in all. Encode fails only when the
  pinning or the allocation fails, never because of a code unit; and each wrapper then
  issues its system call on the C-string reading of that buffer.
\<close>

theorem getString8859_1Chars_lossy:
  "(GetStringCritical_ok w \<and> malloc_ok w (length s + 1) \<longrightarrow>
      getString8859_1Chars w s = Inr (map latin1 s @ [0])) \<and>
   length (map latin1 s @ [0]) = length s + 1 \<and>
   (map latin1 s @ [0]) ! length s = 0 \<and>
   (\<forall>i<length s. s ! i \<le> 0xff \<longrightarrow> unat ((map latin1 s @ [0]) ! i) = unat (s ! i)) \<and>
   (\<forall>i<length s. \<not> s ! i \<le> 0xff \<longrightarrow> (map latin1 s @ [0]) ! i = 0x3f) \<and>
   (\<forall>e. getString8859_1Chars w s = Inl e \<longrightarrow>
      \<not> GetStringCritical_ok w \<or> \<not> malloc_ok w (length s + 1)) \<and>
   (resources_ok w \<longrightarrow>
      fst (Java_com_aoapps_io_posix_PosixFile_getStat0 w s)
        = [Sys_lstat (c_string (map latin1 s @ [0]))] \<and>
      fst (Java_com_aoindustries_io_unix_UnixFile_getStat0 w s)
        = [Sys_lstat (c_string (map latin1 s @ [0]))] \<and>
      fst (Java_com_aoapps_io_posix_PosixFile_readLink0 w s)
        = [Sys_readlink (c_string (map latin1 s @ [0])) 4096] \<and>
      fst (Java_com_aoapps_io_posix_PosixFile_utime0 w s atime mtime)
        = [Sys_utime (c_string (map latin1 s @ [0])) (jlong_div atime 1000) (jlong_div mtime 1000)])"
proof -
  have enc: "GetStringCritical_ok w \<and> malloc_ok w (length s + 1) \<longrightarrow>
      getString8859_1Chars w s = Inr (map latin1 s @ [0])"
    using getString8859_1Chars_ok [of w s] by blast
  have len: "length (map latin1 s @ [0]) = length s + 1"
    by simp
  have last: "(map latin1 s @ [0]) ! length s = 0"
    by (simp add: nth_append)
  have low: "\<forall>i<length s. s ! i \<le> 0xff \<longrightarrow> unat ((map latin1 s @ [0]) ! i) = unat (s ! i)"
    by (simp add: nth_append unat_ucast_latin1)
  have high: "\<forall>i<length s. \<not> s ! i \<le> 0xff \<longrightarrow> (map latin1 s @ [0]) ! i = 0x3f"
    by (simp add: nth_append)
  have fail: "\<forall>e. getString8859_1Chars w s = Inl e \<longrightarrow>
      \<not> GetStringCritical_ok w \<or> \<not> malloc_ok w (length s + 1)"
    using enc by auto
  have ops: "resources_ok w \<longrightarrow>
      fst (Java_com_aoapps_io_posix_PosixFile_getStat0 w s)
        = [Sys_lstat (c_string (map latin1 s @ [0]))] \<and>
      fst (Java_com_aoindustries_io_unix_UnixFile_getStat0 w s)
        = [Sys_lstat (c_string (map latin1 s @ [0]))] \<and>
      fst (Java_com_aoapps_io_posix_PosixFile_readLink0 w s)
        = [Sys_readlink (c_string (map latin1 s @ [0])) 4096] \<and>
      fst (Java_com_aoapps_io_posix_PosixFile_utime0 w s atime mtime)
        = [Sys_utime (c_string (map latin1 s @ [0])) (jlong_div atime 1000) (jlong_div mtime 1000)]"
  proof
    assume ok: "resources_ok w"
    then have m: "malloc_ok w n" for n
      by (simp add: resources_ok_def)
    note e = resources_encode [OF ok, of s]
    show "fst (Java_com_aoapps_io_posix_PosixFile_getStat0 w s)
        = [Sys_lstat (c_string (map latin1 s @ [0]))] \<and>
      fst (Java_com_aoindustries_io_unix_UnixFile_getStat0 w s)
        = [Sys_lstat (c_string (map latin1 s @ [0]))] \<and>
      fst (Java_com_aoapps_io_posix_PosixFile_readLink0 w s)
        = [Sys_readlink (c_string (map latin1 s @ [0])) 4096] \<and>
      fst (Java_com_aoapps_io_posix_PosixFile_utime0 w s atime mtime)
        = [Sys_utime (c_string (map latin1 s @ [0])) (jlong_div atime 1000) (jlong_div mtime 1000)]"
      using getStat0_trace [OF e m] readLink0_trace [OF e m] utime0_trace [OF e m]
      by (intro conjI)
  qed
  from enc len last low high fail ops show ?thesis
    by (intro conjI)
qed

theorem getString8859_1Chars_lossy_witness:
  "GetStringCritical_ok quiet_world \<and> malloc_ok quiet_world (length [0x41, 0x20AC :: jchar] + 1) \<and>
   resources_ok quiet_world \<and>
   getString8859_1Chars quiet_world [0x41, 0x20AC] = Inr [0x41, 0x3f, 0] \<and>
   fst (Java_com_aoapps_io_posix_PosixFile_getStat0 quiet_world [0x41, 0x20AC])
     = [Sys_lstat [0x41, 0x3f]]"
proof -
  have g: "GetStringCritical_ok quiet_world \<and> malloc_ok quiet_world (length [0x41, 0x20AC :: jchar] + 1)"
    by (simp add: quiet_world_def)
  note ok = resources_ok_quiet_world
  note th = getString8859_1Chars_lossy [of quiet_world "[0x41, 0x20AC]"]
  from th g have "getString8859_1Chars quiet_world [0x41, 0x20AC]
      = Inr (map latin1 [0x41, 0x20AC] @ [0])"
    by blast
  then have e: "getString8859_1Chars quiet_world [0x41, 0x20AC] = Inr [0x41, 0x3f, 0]"
    by simp
  from th ok have "fst (Java_com_aoapps_io_posix_PosixFile_getStat0 quiet_world [0x41, 0x20AC])
      = [Sys_lstat (c_string (map latin1 [0x41, 0x20AC] @ [0]))]"
    by blast
  then have t: "fst (Java_com_aoapps_io_posix_PosixFile_getStat0 quiet_world [0x41, 0x20AC])
      = [Sys_lstat [0x41, 0x3f]]"
    by (simp add: c_string_def)
  from g ok e t show ?thesis by blast
qed

end
